theory Spec2Isabelle
  imports Complex_Main "HOL-Library.Word" "HOL-Library.Log_Nat"
begin

section \<open>calc: expression parsers built on an exact constant calculator\<close>

text \<open>
  The package \<^verbatim>\<open>calc\<close> (file \<^verbatim>\<open>main.go\<close>) evaluates the text of a constant
  expression in a \<^verbatim>\<open>Scope\<close> and narrows the exact result to a machine type.
  The file itself holds the \<^verbatim>\<open>Scope\<close> type, its \<^verbatim>\<open>Assign\<close>,
  \<^verbatim>\<open>AssignValue\<close> and \<^verbatim>\<open>Import\<close> operations and the narrowing methods; the
  evaluation of the text is delegated to \<^verbatim>\<open>types.Eval\<close> and the exact values to
  \<^verbatim>\<open>go/constant\<close>, neither of which is part of the repository. Those parts are
  modelled from the specification (sections 3 and 4.1 to 4.6) and are marked as such.
\<close>

subsection \<open>Constant values\<close>

datatype Kind = KUnknown | KBool | KString | KInt | KFloat | KComplex


text \<open>
  Modelled from the spec: the values of \<^verbatim>\<open>go/constant\<close> (\<^verbatim>\<open>constant.Value\<close>), which
  is not in the repository. Section 3: a tagged union of a boolean, a string of bytes,
  an arbitrary-precision integer, an exact rational, a complex number with exact
  rational parts, and the marker Unknown.
\<close>

datatype Value =
    VUnknown
  | VBool bool
  | VString string
  | VInt int
  | VFloat rat
  | VComplex rat rat

fun Kind_of :: "Value \<Rightarrow> Kind" where
  "Kind_of VUnknown = KUnknown"
| "Kind_of (VBool b) = KBool"
| "Kind_of (VString s) = KString"
| "Kind_of (VInt i) = KInt"
| "Kind_of (VFloat q) = KFloat"
| "Kind_of (VComplex re im) = KComplex"

text \<open>The operators of the expression grammar (section 4.1), unary and binary.\<close>

datatype operator =
    OpAdd | OpSub | OpMul | OpQuo | OpRem
  | OpAnd | OpOr | OpXor | OpAndNot | OpShl | OpShr
  | OpLAnd | OpLOr | OpNot
  | OpEql | OpNeq | OpLss | OpLeq | OpGtr | OpGeq

subsection \<open>Errors\<close>

text \<open>
  The error kinds of section 7 of the specification. In \<^verbatim>\<open>main.go\<close> the narrowing
  errors are built by \<^verbatim>\<open>fmt.Errorf("not representable as a float (%v): %q", ...)\<close>
  and its siblings: \<open>NotRepresentable\<close> carries the kind of the value, the target named
  in the message and the expression text. The error of \<^verbatim>\<open>Import\<close>,
  \<^verbatim>\<open>"package names cannot be exported: %v"\<close>, is a \<open>NamespaceError\<close>.
\<close>

datatype error =
    SyntaxError nat string
  | UnknownIdentifier string
  | NamespaceError string string
  | TypeMismatch operator "Kind list"
  | DivisionByZero
  | InvalidShift Value
  | NotRepresentable Kind string string

subsection \<open>Lexer\<close>

text \<open>
  Modelled from the spec: the lexer of section 4.1 (in the repository this is the scanner
  behind \<^verbatim>\<open>types.Eval\<close>). A token is a kind with its payload and the offset of its
  first character.
\<close>


datatype token_kind =
    Tok_Int int
  | Tok_Float rat
  | Tok_Imag rat
  | Tok_String string
  | Tok_Bool bool
  | Tok_Ident "string option" string
  | Tok_Op operator
  | Tok_LParen
  | Tok_RParen

type_synonym token = "token_kind \<times> nat"

definition byte :: "char \<Rightarrow> nat" where
  "byte c = of_char c"

definition is_space :: "char \<Rightarrow> bool" where
  "is_space c = (c = CHR '' '' \<or> c = CHR 0x09 \<or> c = CHR 0x0A \<or> c = CHR 0x0D)"

definition is_decimal :: "char \<Rightarrow> bool" where
  "is_decimal c = (48 \<le> byte c \<and> byte c \<le> 57)"

definition is_letter :: "char \<Rightarrow> bool" where
  "is_letter c = ((97 \<le> byte c \<and> byte c \<le> 122) \<or> (65 \<le> byte c \<and> byte c \<le> 90) \<or> c = CHR ''_'')"

definition is_ident_char :: "char \<Rightarrow> bool" where
  "is_ident_char c = (is_letter c \<or> is_decimal c \<or> c = CHR ''.'')"

text \<open>The value of a digit in any base up to sixteen; 16 for a character that is no digit.\<close>

definition digit_val :: "char \<Rightarrow> nat" where
  "digit_val c =
     (if 48 \<le> byte c \<and> byte c \<le> 57 then byte c - 48
      else if 97 \<le> byte c \<and> byte c \<le> 102 then byte c - 87
      else if 65 \<le> byte c \<and> byte c \<le> 70 then byte c - 55
      else 16)"

definition is_sep :: "char \<Rightarrow> bool" where
  "is_sep c = (c = CHR ''_'')"

text \<open>
  Digit-group separators: each \<^verbatim>\<open>_\<close> stands between two digits (or between the base
  prefix and a digit); \<open>prev\<close> tells whether the position before is one of those.
\<close>

fun seps_ok :: "bool \<Rightarrow> string \<Rightarrow> bool" where
  "seps_ok prev [] = prev"
| "seps_ok prev (c # cs) = (if is_sep c then prev \<and> seps_ok False cs else seps_ok True cs)"

definition digits_val :: "nat \<Rightarrow> string \<Rightarrow> int option" where
  "digits_val base ds =
     (let ds' = filter (\<lambda>c. \<not> is_sep c) ds in
      if ds' = [] \<or> \<not> list_all (\<lambda>c. digit_val c < base) ds' then None
      else Some (foldl (\<lambda>acc c. acc * int base + int (digit_val c)) 0 ds'))"

definition grouped_digits :: "bool \<Rightarrow> nat \<Rightarrow> string \<Rightarrow> int option" where
  "grouped_digits prev base ds = (if seps_ok prev ds then digits_val base ds else None)"

text \<open>
  Integer literals: decimal, leading-zero octal, \<^verbatim>\<open>0x\<close>/\<^verbatim>\<open>0X\<close> hexadecimal,
  \<^verbatim>\<open>0b\<close>/\<^verbatim>\<open>0B\<close> binary, with optional separators; the value is an unbounded
  integer. \<open>None\<close> when the text is not an integer literal.
\<close>

definition int_literal :: "string \<Rightarrow> int option" where
  "int_literal s =
     (case s of
        c0 # c1 # ds \<Rightarrow>
          if c0 = CHR ''0'' \<and> (c1 = CHR ''x'' \<or> c1 = CHR ''X'') then grouped_digits True 16 ds
          else if c0 = CHR ''0'' \<and> (c1 = CHR ''b'' \<or> c1 = CHR ''B'') then grouped_digits True 2 ds
          else if c0 = CHR ''0'' then grouped_digits True 8 (c1 # ds)
          else grouped_digits False 10 s
      | _ \<Rightarrow> grouped_digits False 10 s)"

definition pow10 :: "int \<Rightarrow> rat" where
  "pow10 e = (if 0 \<le> e then 10 ^ nat e else 1 / 10 ^ nat (- e))"

text \<open>Splits a text at the first character satisfying \<open>P\<close> (the character is dropped).\<close>

definition split_at :: "(char \<Rightarrow> bool) \<Rightarrow> string \<Rightarrow> string \<times> string option" where
  "split_at P s =
     (takeWhile (\<lambda>c. \<not> P c) s,
      case dropWhile (\<lambda>c. \<not> P c) s of [] \<Rightarrow> None | _ # t \<Rightarrow> Some t)"

definition is_dot :: "char \<Rightarrow> bool" where
  "is_dot c = (c = CHR ''.'')"

definition is_exp :: "char \<Rightarrow> bool" where
  "is_exp c = (c = CHR ''e'' \<or> c = CHR ''E'')"

definition is_sign :: "char \<Rightarrow> bool" where
  "is_sign c = (c = CHR ''+'' \<or> c = CHR ''-'')"

text \<open>A possibly empty group of decimal digits: its value and the number of digits.\<close>

definition dec_digits :: "string \<Rightarrow> (int \<times> nat) option" where
  "dec_digits ds =
     (if ds = [] then Some (0, 0)
      else map_option (\<lambda>v. (v, length (filter (\<lambda>c. \<not> is_sep c) ds))) (grouped_digits False 10 ds))"

definition exponent :: "string \<Rightarrow> int option" where
  "exponent s =
     (case s of
        [] \<Rightarrow> None
      | c # ds \<Rightarrow>
          if c = CHR ''+'' then grouped_digits False 10 ds
          else if c = CHR ''-'' then map_option uminus (grouped_digits False 10 ds)
          else grouped_digits False 10 s)"

text \<open>
  Float literals: decimal digits with an optional fractional part and an optional
  exponent (one of the two is present), read as the exact rational the digits denote.
\<close>

definition float_literal :: "string \<Rightarrow> rat option" where
  "float_literal s =
     (let (mant, ex) = split_at is_exp s;
          (ip, fp) = split_at is_dot mant
      in if ex = None \<and> fp = None then None
         else if ip = [] \<and> (fp = None \<or> fp = Some []) then None
         else
           (case (dec_digits ip,
                  dec_digits (case fp of None \<Rightarrow> [] | Some f \<Rightarrow> f),
                  case ex of None \<Rightarrow> Some 0 | Some x \<Rightarrow> exponent x) of
              (Some (iv, _), Some (fv, n), Some e) \<Rightarrow>
                Some ((of_int iv + of_int fv / 10 ^ n) * pow10 e)
            | _ \<Rightarrow> None))"

definition is_number_char :: "char \<Rightarrow> bool" where
  "is_number_char c = (is_letter c \<or> is_decimal c \<or> c = CHR ''.'')"

definition hex_prefixed :: "string \<Rightarrow> bool" where
  "hex_prefixed s =
     (case s of c0 # c1 # _ \<Rightarrow> c0 = CHR ''0'' \<and> (c1 = CHR ''x'' \<or> c1 = CHR ''X'') | _ \<Rightarrow> False)"

text \<open>
  The text of the numeric literal at the head of the input: the longest run of digits,
  letters, separators and dots, extended by a signed exponent where the run ends in an
  exponent mark.
\<close>

definition scan_number :: "string \<Rightarrow> string" where
  "scan_number s =
     (let w = takeWhile is_number_char s; r = drop (length w) s
      in case r of
           c # ds \<Rightarrow>
             if w \<noteq> [] \<and> is_exp (last w) \<and> \<not> hex_prefixed w \<and> is_sign c
             then w @ c # takeWhile is_decimal ds
             else w
         | [] \<Rightarrow> w)"

definition number_token :: "string \<Rightarrow> token_kind option" where
  "number_token w =
     (case int_literal w of
        Some v \<Rightarrow> Some (Tok_Int v)
      | None \<Rightarrow>
          (case float_literal w of
             Some q \<Rightarrow> Some (Tok_Float q)
           | None \<Rightarrow>
               if w \<noteq> [] \<and> last w = CHR ''i'' then
                 (case int_literal (butlast w) of
                    Some v \<Rightarrow> Some (Tok_Imag (of_int v))
                  | None \<Rightarrow> map_option Tok_Imag (float_literal (butlast w)))
               else None))"

definition valid_ident :: "string \<Rightarrow> bool" where
  "valid_ident w =
     (case w of
        [] \<Rightarrow> False
      | c # cs \<Rightarrow> is_letter c \<and> list_all (\<lambda>d. is_letter d \<or> is_decimal d) cs)"

text \<open>
  Identifiers, with at most one dot (a qualified identifier is one token), and the
  keywords \<^verbatim>\<open>true\<close> and \<^verbatim>\<open>false\<close>.
\<close>

definition ident_token :: "string \<Rightarrow> token_kind option" where
  "ident_token w =
     (case split_at is_dot w of
        (a, None) \<Rightarrow>
          if a = ''true'' then Some (Tok_Bool True)
          else if a = ''false'' then Some (Tok_Bool False)
          else if valid_ident a then Some (Tok_Ident None a)
          else None
      | (a, Some b) \<Rightarrow>
          if valid_ident a \<and> valid_ident b then Some (Tok_Ident (Some a) b) else None)"

definition unescape :: "char \<Rightarrow> char option" where
  "unescape c =
     (if c = CHR ''a'' then Some (CHR 0x07)
      else if c = CHR ''b'' then Some (CHR 0x08)
      else if c = CHR ''f'' then Some (CHR 0x0C)
      else if c = CHR ''n'' then Some (CHR 0x0A)
      else if c = CHR ''r'' then Some (CHR 0x0D)
      else if c = CHR ''t'' then Some (CHR 0x09)
      else if c = CHR ''v'' then Some (CHR 0x0B)
      else if c = CHR 0x5C then Some (CHR 0x5C)
      else if c = CHR 0x22 then Some (CHR 0x22)
      else None)"

text \<open>
  The body of a string literal, after the opening quote: the bytes it denotes and the
  number of characters read, closing quote included. \<open>None\<close> for an unterminated
  string or an unknown escape.
\<close>

fun scan_string :: "string \<Rightarrow> (string \<times> nat) option" where
  "scan_string [] = None"
| "scan_string (c # cs) =
     (if c = CHR 0x22 then Some ([], 1)
      else if c = CHR 0x0A then None
      else if c = CHR 0x5C then
        (case cs of
           [] \<Rightarrow> None
         | d # ds \<Rightarrow>
             (case unescape d of
                None \<Rightarrow> None
              | Some x \<Rightarrow> map_option (\<lambda>(s, n). (x # s, n + 2)) (scan_string ds)))
      else map_option (\<lambda>(s, n). (c # s, n + 1)) (scan_string cs))"

definition next_is :: "char \<Rightarrow> string \<Rightarrow> bool" where
  "next_is d cs = (case cs of [] \<Rightarrow> False | c # _ \<Rightarrow> c = d)"

definition scan_operator :: "string \<Rightarrow> (token_kind \<times> nat) option" where
  "scan_operator s =
     (case s of
        [] \<Rightarrow> None
      | c # cs \<Rightarrow>
          if c = CHR ''+'' then Some (Tok_Op OpAdd, 1)
          else if c = CHR ''-'' then Some (Tok_Op OpSub, 1)
          else if c = CHR ''*'' then Some (Tok_Op OpMul, 1)
          else if c = CHR ''/'' then Some (Tok_Op OpQuo, 1)
          else if c = CHR ''%'' then Some (Tok_Op OpRem, 1)
          else if c = CHR ''('' then Some (Tok_LParen, 1)
          else if c = CHR '')'' then Some (Tok_RParen, 1)
          else if c = CHR ''^'' then Some (Tok_Op OpXor, 1)
          else if c = CHR ''&'' then
            (if next_is (CHR ''&'') cs then Some (Tok_Op OpLAnd, 2)
             else if next_is (CHR ''^'') cs then Some (Tok_Op OpAndNot, 2)
             else Some (Tok_Op OpAnd, 1))
          else if c = CHR ''|'' then
            (if next_is (CHR ''|'') cs then Some (Tok_Op OpLOr, 2) else Some (Tok_Op OpOr, 1))
          else if c = CHR ''<'' then
            (if next_is (CHR ''<'') cs then Some (Tok_Op OpShl, 2)
             else if next_is (CHR ''='') cs then Some (Tok_Op OpLeq, 2)
             else Some (Tok_Op OpLss, 1))
          else if c = CHR ''>'' then
            (if next_is (CHR ''>'') cs then Some (Tok_Op OpShr, 2)
             else if next_is (CHR ''='') cs then Some (Tok_Op OpGeq, 2)
             else Some (Tok_Op OpGtr, 1))
          else if c = CHR ''='' then
            (if next_is (CHR ''='') cs then Some (Tok_Op OpEql, 2) else None)
          else if c = CHR ''!'' then
            (if next_is (CHR ''='') cs then Some (Tok_Op OpNeq, 2) else Some (Tok_Op OpNot, 1))
          else None)"

text \<open>
  The token at the head of the input (which does not start with a space) and the number
  of characters it takes, or a syntax error at \<open>pos\<close>.
\<close>

definition scan_token :: "nat \<Rightarrow> string \<Rightarrow> error + (token_kind \<times> nat)" where
  "scan_token pos s =
     (case s of
        [] \<Rightarrow> Inl (SyntaxError pos ''unexpected end of input'')
      | c # cs \<Rightarrow>
          if is_decimal c \<or> (is_dot c \<and> (case cs of [] \<Rightarrow> False | d # _ \<Rightarrow> is_decimal d)) then
            (let w = scan_number s
             in case number_token w of
                  None \<Rightarrow> Inl (SyntaxError pos ''malformed numeric literal'')
                | Some k \<Rightarrow> Inr (k, length w))
          else if is_letter c then
            (let w = takeWhile is_ident_char s
             in case ident_token w of
                  None \<Rightarrow> Inl (SyntaxError pos ''malformed identifier'')
                | Some k \<Rightarrow> Inr (k, length w))
          else if c = CHR 0x22 then
            (case scan_string cs of
               None \<Rightarrow> Inl (SyntaxError pos ''malformed string literal'')
             | Some (str, n) \<Rightarrow> Inr (Tok_String str, Suc n))
          else
            (case scan_operator s of
               None \<Rightarrow> Inl (SyntaxError pos ''unexpected character'')
             | Some kn \<Rightarrow> Inr kn))"

fun tokenize_from :: "nat \<Rightarrow> string \<Rightarrow> error + token list" where
  "tokenize_from pos [] = Inr []"
| "tokenize_from pos (c # cs) =
     (if is_space c then tokenize_from (Suc pos) cs
      else
        (case scan_token pos (c # cs) of
           Inl e \<Rightarrow> Inl e
         | Inr (k, n) \<Rightarrow>
             (case tokenize_from (pos + n) (drop (n - 1) cs) of
                Inl e \<Rightarrow> Inl e
              | Inr ts \<Rightarrow> Inr ((k, pos) # ts))))"

definition tokenize :: "string \<Rightarrow> error + token list" where
  "tokenize text = tokenize_from 0 text"

subsection \<open>Parser\<close>

text \<open>
  Modelled from the spec: the parser of section 4.2, a precedence-climbing recursive
  descent. Precedence, highest first: unary operators; \<^verbatim>\<open>* / % << >> & &^\<close>;
  \<^verbatim>\<open>+ - | ^\<close>; the comparisons; \<^verbatim>\<open>&&\<close>; \<^verbatim>\<open>||\<close>.
\<close>

datatype expr =
    Literal Value
  | Identifier "string option" string
  | UnaryOp operator expr
  | BinaryOp operator expr expr
  | Parenthesized expr

fun binary_prec :: "operator \<Rightarrow> nat" where
  "binary_prec OpMul = 5"
| "binary_prec OpQuo = 5"
| "binary_prec OpRem = 5"
| "binary_prec OpShl = 5"
| "binary_prec OpShr = 5"
| "binary_prec OpAnd = 5"
| "binary_prec OpAndNot = 5"
| "binary_prec OpAdd = 4"
| "binary_prec OpSub = 4"
| "binary_prec OpOr = 4"
| "binary_prec OpXor = 4"
| "binary_prec OpEql = 3"
| "binary_prec OpNeq = 3"
| "binary_prec OpLss = 3"
| "binary_prec OpLeq = 3"
| "binary_prec OpGtr = 3"
| "binary_prec OpGeq = 3"
| "binary_prec OpLAnd = 2"
| "binary_prec OpLOr = 1"
| "binary_prec OpNot = 0"

definition is_unary :: "operator \<Rightarrow> bool" where
  "is_unary op = (op = OpAdd \<or> op = OpSub \<or> op = OpNot \<or> op = OpXor)"

text \<open>
  \<open>parse_unary\<close> reads an operand (a literal, an identifier, a parenthesized expression
  or a unary operator applied to an operand); \<open>parse_binary prec\<close> reads an operand and
  the binary operators of precedence at least \<open>prec\<close> that follow it; \<open>parse_rest\<close> is
  the loop of the latter. \<open>eof\<close> is the offset of the end of the text. Each function
  returns the tokens it has not read. The comparisons of lengths hold in every call
  (a successful parse reads at least one token); they make the termination evident.
\<close>

function parse_unary :: "nat \<Rightarrow> token list \<Rightarrow> error + (expr \<times> token list)"
  and parse_binary :: "nat \<Rightarrow> nat \<Rightarrow> token list \<Rightarrow> error + (expr \<times> token list)"
  and parse_rest :: "nat \<Rightarrow> nat \<Rightarrow> expr \<Rightarrow> token list \<Rightarrow> error + (expr \<times> token list)"
where
  "parse_unary eof [] = Inl (SyntaxError eof ''unexpected end of expression'')"
| "parse_unary eof ((k, pos) # ts) =
     (case k of
        Tok_Int i \<Rightarrow> Inr (Literal (VInt i), ts)
      | Tok_Float q \<Rightarrow> Inr (Literal (VFloat q), ts)
      | Tok_Imag q \<Rightarrow> Inr (Literal (VComplex 0 q), ts)
      | Tok_String str \<Rightarrow> Inr (Literal (VString str), ts)
      | Tok_Bool b \<Rightarrow> Inr (Literal (VBool b), ts)
      | Tok_Ident ns n \<Rightarrow> Inr (Identifier ns n, ts)
      | Tok_LParen \<Rightarrow>
          (case parse_binary eof 1 ts of
             Inl e \<Rightarrow> Inl e
           | Inr (x, ts') \<Rightarrow>
               (case ts' of
                  [] \<Rightarrow> Inl (SyntaxError eof ''unmatched parenthesis'')
                | (k', pos') # ts'' \<Rightarrow>
                    if k' = Tok_RParen then Inr (Parenthesized x, ts'')
                    else Inl (SyntaxError pos' ''unexpected token'')))
      | Tok_RParen \<Rightarrow> Inl (SyntaxError pos ''unexpected token'')
      | Tok_Op op \<Rightarrow>
          if is_unary op then
            (case parse_unary eof ts of
               Inl e \<Rightarrow> Inl e
             | Inr (x, ts') \<Rightarrow> Inr (UnaryOp op x, ts'))
          else Inl (SyntaxError pos ''unexpected token''))"
| "parse_binary eof prec ts =
     (case parse_unary eof ts of
        Inl e \<Rightarrow> Inl e
      | Inr (lhs, ts') \<Rightarrow>
          if length ts' < length ts then parse_rest eof prec lhs ts'
          else Inl (SyntaxError eof ''unexpected token''))"
| "parse_rest eof prec lhs [] = Inr (lhs, [])"
| "parse_rest eof prec lhs ((k, pos) # ts) =
     (case k of
        Tok_Op op \<Rightarrow>
          if 0 < binary_prec op \<and> prec \<le> binary_prec op then
            (case parse_binary eof (Suc (binary_prec op)) ts of
               Inl e \<Rightarrow> Inl e
             | Inr (rhs, ts') \<Rightarrow>
                 if length ts' \<le> length ts then parse_rest eof prec (BinaryOp op lhs rhs) ts'
                 else Inl (SyntaxError eof ''unexpected token''))
          else Inr (lhs, (k, pos) # ts)
      | _ \<Rightarrow> Inr (lhs, (k, pos) # ts))"
  by pat_completeness auto
termination
  by (relation "measures [\<lambda>x. case x of Inl (eof, ts) \<Rightarrow> length ts
                                       | Inr (Inl (eof, prec, ts)) \<Rightarrow> length ts
                                       | Inr (Inr (eof, prec, lhs, ts)) \<Rightarrow> length ts,
                         \<lambda>x. case x of Inl _ \<Rightarrow> 0 | Inr (Inl _) \<Rightarrow> 1 | Inr (Inr _) \<Rightarrow> 0]")
     auto

text \<open>A text is one complete expression: input left over after it is a syntax error.\<close>

definition parse :: "nat \<Rightarrow> token list \<Rightarrow> error + expr" where
  "parse eof ts =
     (case parse_binary eof 1 ts of
        Inl e \<Rightarrow> Inl e
      | Inr (x, []) \<Rightarrow> Inr x
      | Inr (x, (k, pos) # _) \<Rightarrow> Inl (SyntaxError pos ''unexpected token''))"

text \<open>The tree of a text: the lexer, then the parser.\<close>

definition parse_text :: "string \<Rightarrow> error + expr" where
  "parse_text text =
     (case tokenize text of
        Inl err \<Rightarrow> Inl err
      | Inr ts \<Rightarrow> parse (length text) ts)"

subsection \<open>Operator semantics\<close>

text \<open>
  Modelled from the spec: the operators of section 4.3 (in the repository,
  \<^verbatim>\<open>constant.BinaryOp\<close>, \<^verbatim>\<open>constant.UnaryOp\<close>, \<^verbatim>\<open>constant.Shift\<close> and
  \<^verbatim>\<open>constant.Compare\<close> under the checks of \<^verbatim>\<open>go/types\<close>).
\<close>

fun kind_rank :: "Kind \<Rightarrow> nat" where
  "kind_rank KUnknown = 0"
| "kind_rank KBool = 1"
| "kind_rank KString = 2"
| "kind_rank KInt = 3"
| "kind_rank KFloat = 4"
| "kind_rank KComplex = 5"

definition is_numeric :: "Kind \<Rightarrow> bool" where
  "is_numeric k = (k = KInt \<or> k = KFloat \<or> k = KComplex)"

definition least_upper_kind :: "Kind \<Rightarrow> Kind \<Rightarrow> Kind option" where
  "least_upper_kind a b =
     (if a = b \<and> a \<noteq> KUnknown then Some a
      else if is_numeric a \<and> is_numeric b then Some (if kind_rank a < kind_rank b then b else a)
      else None)"

fun promote :: "Kind \<Rightarrow> Value \<Rightarrow> Value" where
  "promote KFloat (VInt i) = VFloat (of_int i)"
| "promote KComplex (VInt i) = VComplex (of_int i) 0"
| "promote KComplex (VFloat q) = VComplex q 0"
| "promote k v = v"

definition match_kinds :: "Value \<Rightarrow> Value \<Rightarrow> (Value \<times> Value) option" where
  "match_kinds x y =
     map_option (\<lambda>k. (promote k x, promote k y)) (least_upper_kind (Kind_of x) (Kind_of y))"

text \<open>Integer division truncates toward zero; the remainder is consistent with it.\<close>

definition trunc_div :: "int \<Rightarrow> int \<Rightarrow> int" where
  "trunc_div i j = (if (i < 0) = (j < 0) then \<bar>i\<bar> div \<bar>j\<bar> else - (\<bar>i\<bar> div \<bar>j\<bar>))"

definition trunc_rem :: "int \<Rightarrow> int \<Rightarrow> int" where
  "trunc_rem i j = i - j * trunc_div i j"

definition int_op :: "operator \<Rightarrow> int \<Rightarrow> int \<Rightarrow> error + Value" where
  "int_op op i j =
     (case op of
        OpAdd \<Rightarrow> Inr (VInt (i + j))
      | OpSub \<Rightarrow> Inr (VInt (i - j))
      | OpMul \<Rightarrow> Inr (VInt (i * j))
      | OpQuo \<Rightarrow> if j = 0 then Inl DivisionByZero else Inr (VInt (trunc_div i j))
      | OpRem \<Rightarrow> if j = 0 then Inl DivisionByZero else Inr (VInt (trunc_rem i j))
      | OpAnd \<Rightarrow> Inr (VInt (and i j))
      | OpOr \<Rightarrow> Inr (VInt (or i j))
      | OpXor \<Rightarrow> Inr (VInt (xor i j))
      | OpAndNot \<Rightarrow> Inr (VInt (and i (not j)))
      | OpEql \<Rightarrow> Inr (VBool (i = j))
      | OpNeq \<Rightarrow> Inr (VBool (i \<noteq> j))
      | OpLss \<Rightarrow> Inr (VBool (i < j))
      | OpLeq \<Rightarrow> Inr (VBool (i \<le> j))
      | OpGtr \<Rightarrow> Inr (VBool (i > j))
      | OpGeq \<Rightarrow> Inr (VBool (i \<ge> j))
      | _ \<Rightarrow> Inl (TypeMismatch op [KInt, KInt]))"

definition float_op :: "operator \<Rightarrow> rat \<Rightarrow> rat \<Rightarrow> error + Value" where
  "float_op op a b =
     (case op of
        OpAdd \<Rightarrow> Inr (VFloat (a + b))
      | OpSub \<Rightarrow> Inr (VFloat (a - b))
      | OpMul \<Rightarrow> Inr (VFloat (a * b))
      | OpQuo \<Rightarrow> if b = 0 then Inl DivisionByZero else Inr (VFloat (a / b))
      | OpEql \<Rightarrow> Inr (VBool (a = b))
      | OpNeq \<Rightarrow> Inr (VBool (a \<noteq> b))
      | OpLss \<Rightarrow> Inr (VBool (a < b))
      | OpLeq \<Rightarrow> Inr (VBool (a \<le> b))
      | OpGtr \<Rightarrow> Inr (VBool (a > b))
      | OpGeq \<Rightarrow> Inr (VBool (a \<ge> b))
      | _ \<Rightarrow> Inl (TypeMismatch op [KFloat, KFloat]))"

definition complex_op :: "operator \<Rightarrow> rat \<times> rat \<Rightarrow> rat \<times> rat \<Rightarrow> error + Value" where
  "complex_op op x y =
     (let a = fst x; b = snd x; c = fst y; d = snd y
      in case op of
           OpAdd \<Rightarrow> Inr (VComplex (a + c) (b + d))
         | OpSub \<Rightarrow> Inr (VComplex (a - c) (b - d))
         | OpMul \<Rightarrow> Inr (VComplex (a * c - b * d) (a * d + b * c))
         | OpQuo \<Rightarrow>
             if c = 0 \<and> d = 0 then Inl DivisionByZero
             else Inr (VComplex ((a * c + b * d) / (c * c + d * d))
                                ((b * c - a * d) / (c * c + d * d)))
         | OpEql \<Rightarrow> Inr (VBool (a = c \<and> b = d))
         | OpNeq \<Rightarrow> Inr (VBool (\<not> (a = c \<and> b = d)))
         | _ \<Rightarrow> Inl (TypeMismatch op [KComplex, KComplex]))"

text \<open>Strings are compared byte by byte.\<close>

fun bytes_less :: "string \<Rightarrow> string \<Rightarrow> bool" where
  "bytes_less [] [] = False"
| "bytes_less [] (d # ds) = True"
| "bytes_less (c # cs) [] = False"
| "bytes_less (c # cs) (d # ds) = (byte c < byte d \<or> (c = d \<and> bytes_less cs ds))"

definition string_op :: "operator \<Rightarrow> string \<Rightarrow> string \<Rightarrow> error + Value" where
  "string_op op a b =
     (case op of
        OpAdd \<Rightarrow> Inr (VString (a @ b))
      | OpEql \<Rightarrow> Inr (VBool (a = b))
      | OpNeq \<Rightarrow> Inr (VBool (a \<noteq> b))
      | OpLss \<Rightarrow> Inr (VBool (bytes_less a b))
      | OpLeq \<Rightarrow> Inr (VBool (\<not> bytes_less b a))
      | OpGtr \<Rightarrow> Inr (VBool (bytes_less b a))
      | OpGeq \<Rightarrow> Inr (VBool (\<not> bytes_less a b))
      | _ \<Rightarrow> Inl (TypeMismatch op [KString, KString]))"

definition bool_op :: "operator \<Rightarrow> bool \<Rightarrow> bool \<Rightarrow> error + Value" where
  "bool_op op a b =
     (case op of
        OpLAnd \<Rightarrow> Inr (VBool (a \<and> b))
      | OpLOr \<Rightarrow> Inr (VBool (a \<or> b))
      | OpEql \<Rightarrow> Inr (VBool (a = b))
      | OpNeq \<Rightarrow> Inr (VBool (a \<noteq> b))
      | _ \<Rightarrow> Inl (TypeMismatch op [KBool, KBool]))"

text \<open>
  Shifts: the left operand is an Int, the count a non-negative Int; the result is exact
  at any size.
\<close>

definition shift_op :: "operator \<Rightarrow> Value \<Rightarrow> Value \<Rightarrow> error + Value" where
  "shift_op op x y =
     (case x of
        VInt i \<Rightarrow>
          (case y of
             VInt n \<Rightarrow>
               if n < 0 then Inl (InvalidShift y)
               else if op = OpShl then Inr (VInt (i * 2 ^ nat n))
               else Inr (VInt (i div 2 ^ nat n))
           | _ \<Rightarrow> Inl (InvalidShift y))
      | _ \<Rightarrow> Inl (TypeMismatch op [Kind_of x, Kind_of y]))"

definition binary_op :: "operator \<Rightarrow> Value \<Rightarrow> Value \<Rightarrow> error + Value" where
  "binary_op op x y =
     (if op = OpShl \<or> op = OpShr then shift_op op x y
      else
        (case match_kinds x y of
           None \<Rightarrow> Inl (TypeMismatch op [Kind_of x, Kind_of y])
         | Some (VInt i, VInt j) \<Rightarrow> int_op op i j
         | Some (VFloat a, VFloat b) \<Rightarrow> float_op op a b
         | Some (VComplex a b, VComplex c d) \<Rightarrow> complex_op op (a, b) (c, d)
         | Some (VString a, VString b) \<Rightarrow> string_op op a b
         | Some (VBool a, VBool b) \<Rightarrow> bool_op op a b
         | Some _ \<Rightarrow> Inl (TypeMismatch op [Kind_of x, Kind_of y])))"

definition unary_op :: "operator \<Rightarrow> Value \<Rightarrow> error + Value" where
  "unary_op op v =
     (case (op, v) of
        (OpSub, VInt i) \<Rightarrow> Inr (VInt (- i))
      | (OpSub, VFloat q) \<Rightarrow> Inr (VFloat (- q))
      | (OpSub, VComplex a b) \<Rightarrow> Inr (VComplex (- a) (- b))
      | (OpAdd, VInt i) \<Rightarrow> Inr v
      | (OpAdd, VFloat q) \<Rightarrow> Inr v
      | (OpAdd, VComplex a b) \<Rightarrow> Inr v
      | (OpNot, VBool b) \<Rightarrow> Inr (VBool (\<not> b))
      | (OpXor, VInt i) \<Rightarrow> Inr (VInt (not i))
      | _ \<Rightarrow> Inl (TypeMismatch op [Kind_of v]))"

subsection \<open>Packages, objects and the heap\<close>

text \<open>
  \<^verbatim>\<open>type Scope struct { p *types.Package }\<close>: a Scope is a pointer to a package, nil
  in the zero value. Packages live in a heap and are shared by reference: \<^verbatim>\<open>Import\<close>
  stores the pointer to the library's package, not a copy. A package has a scope, a
  dictionary from names to objects; an object is a constant (\<^verbatim>\<open>types.NewConst\<close>, with
  its package, name, type and value) or a package name (\<^verbatim>\<open>types.NewPkgName\<close>, with
  its package, name and the imported package).
\<close>

type_synonym addr = nat

datatype BasicType =
    Invalid | UntypedBool | UntypedInt | UntypedFloat | UntypedComplex | UntypedString

record TypeAndValue =
  Type :: BasicType
  Value :: Value

datatype Object =
    Const addr string BasicType Value
  | PkgName addr string addr

fun Name :: "Object \<Rightarrow> string" where
  "Name (Const pkg n typ val) = n"
| "Name (PkgName pkg n imported) = n"

record Package =
  pkg_path :: string
  pkg_name :: string
  pkg_scope :: "string \<rightharpoonup> Object"

type_synonym Heap = "Package list"

record Scope =
  p :: "addr option"

definition NewPackage :: "string \<Rightarrow> string \<Rightarrow> Package" where
  "NewPackage path n = \<lparr>pkg_path = path, pkg_name = n, pkg_scope = Map.empty\<rparr>"

definition deref :: "Heap \<Rightarrow> addr \<Rightarrow> Package option" where
  "deref h a = (if a < length h then Some (h ! a) else None)"

text \<open>
  Modelled from the spec: \<^verbatim>\<open>types.Scope.Insert\<close> (not in the repository), the
  insert-once rule of sections 3 and 4.5: a name that is bound is never rebound.
\<close>

definition Insert :: "(string \<rightharpoonup> Object) \<Rightarrow> Object \<Rightarrow> (string \<rightharpoonup> Object)" where
  "Insert sc obj = (case sc (Name obj) of Some alt \<Rightarrow> sc | None \<Rightarrow> sc(Name obj \<mapsto> obj))"

definition insert_into :: "Heap \<Rightarrow> addr \<Rightarrow> Object \<Rightarrow> Heap" where
  "insert_into h a obj =
     (case deref h a of
        None \<Rightarrow> h
      | Some P \<Rightarrow> h[a := P\<lparr>pkg_scope := Insert (pkg_scope P) obj\<rparr>])"

text \<open>The entry of a name in the scope of the package at \<open>pk\<close>; none under a nil pointer.\<close>

definition Lookup :: "Heap \<Rightarrow> addr option \<Rightarrow> string \<Rightarrow> Object option" where
  "Lookup h pk n =
     (case pk of
        None \<Rightarrow> None
      | Some a \<Rightarrow> (case deref h a of None \<Rightarrow> None | Some P \<Rightarrow> pkg_scope P n))"

subsection \<open>Exported names\<close>

text \<open>
  Modelled from the spec: the first character of a name (in \<^verbatim>\<open>main.go\<close>,
  \<^verbatim>\<open>utf8.DecodeRuneInString\<close>, which is not in the repository). A name is a string
  of bytes in UTF-8: the result is the first code point and its width, or \<open>RuneError\<close>
  with width 1 for an invalid encoding and with width 0 for the empty string.
\<close>

definition RuneError :: nat where
  "RuneError = 0xFFFD"

definition in_range :: "nat \<Rightarrow> nat \<Rightarrow> nat \<Rightarrow> bool" where
  "in_range lo hi b = (lo \<le> b \<and> b \<le> hi)"

definition DecodeRuneInString :: "string \<Rightarrow> nat \<times> nat" where
  "DecodeRuneInString s =
     (case map byte s of
        [] \<Rightarrow> (RuneError, 0)
      | s0 # rest \<Rightarrow>
          if s0 < 0x80 then (s0, 1)
          else if s0 < 0xC2 \<or> 0xF4 < s0 then (RuneError, 1)
          else if s0 < 0xE0 then
            (case rest of
               s1 # _ \<Rightarrow>
                 if in_range 0x80 0xBF s1 then ((s0 mod 32) * 64 + s1 mod 64, 2)
                 else (RuneError, 1)
             | _ \<Rightarrow> (RuneError, 1))
          else if s0 < 0xF0 then
            (case rest of
               s1 # s2 # _ \<Rightarrow>
                 if in_range (if s0 = 0xE0 then 0xA0 else 0x80) (if s0 = 0xED then 0x9F else 0xBF) s1
                    \<and> in_range 0x80 0xBF s2
                 then ((s0 mod 16) * 4096 + (s1 mod 64) * 64 + s2 mod 64, 3)
                 else (RuneError, 1)
             | _ \<Rightarrow> (RuneError, 1))
          else
            (case rest of
               s1 # s2 # s3 # _ \<Rightarrow>
                 if in_range (if s0 = 0xF0 then 0x90 else 0x80) (if s0 = 0xF4 then 0x8F else 0xBF) s1
                    \<and> in_range 0x80 0xBF s2 \<and> in_range 0x80 0xBF s3
                 then ((s0 mod 8) * 262144 + (s1 mod 64) * 4096 + (s2 mod 64) * 64 + s3 mod 64, 4)
                 else (RuneError, 1)
             | _ \<Rightarrow> (RuneError, 1)))"

text \<open>
  A name is exported when its first code point is an upper-case letter
  (\<^verbatim>\<open>unicode.IsUpper\<close>). The table of upper-case letters belongs to the Go library and
  not to the repository: it is the parameter \<open>IsUpper\<close> of every definition that
  depends on it.
\<close>

definition IsExported :: "(nat \<Rightarrow> bool) \<Rightarrow> string \<Rightarrow> bool" where
  "IsExported IsUpper n = IsUpper (fst (DecodeRuneInString n))"

subsection \<open>Evaluator\<close>

text \<open>
  Modelled from the spec: the evaluator of section 4.4 (in the repository, the checker
  behind \<^verbatim>\<open>types.Eval\<close>). An unqualified name is looked up in the entries of the
  scope; a qualified name \<^verbatim>\<open>ns.name\<close> looks \<^verbatim>\<open>ns\<close> up among the imports of the
  scope and \<^verbatim>\<open>name\<close> among the exported constants of the imported scope. The
  operands of \<^verbatim>\<open>&&\<close> and \<^verbatim>\<open>||\<close> are evaluated from left to right, and the right
  one only when the left one does not determine the result.
\<close>

fun evaluate :: "(nat \<Rightarrow> bool) \<Rightarrow> Heap \<Rightarrow> addr option \<Rightarrow> expr \<Rightarrow> error + Value" where
  "evaluate IsUpper h pk (Literal v) = Inr v"
| "evaluate IsUpper h pk (Identifier None n) =
     (case Lookup h pk n of
        None \<Rightarrow> Inl (UnknownIdentifier n)
      | Some (Const _ _ _ v) \<Rightarrow> Inr v
      | Some (PkgName _ _ _) \<Rightarrow> Inl (NamespaceError n ''namespace used as a value''))"
| "evaluate IsUpper h pk (Identifier (Some ns) n) =
     (case Lookup h pk ns of
        None \<Rightarrow> Inl (UnknownIdentifier (ns @ ''.'' @ n))
      | Some (Const _ _ _ _) \<Rightarrow> Inl (NamespaceError ns ''not a namespace'')
      | Some (PkgName _ _ imported) \<Rightarrow>
          (case Lookup h (Some imported) n of
             Some (Const _ _ _ v) \<Rightarrow>
               if IsExported IsUpper n then Inr v else Inl (UnknownIdentifier (ns @ ''.'' @ n))
           | _ \<Rightarrow> Inl (UnknownIdentifier (ns @ ''.'' @ n))))"
| "evaluate IsUpper h pk (Parenthesized x) = evaluate IsUpper h pk x"
| "evaluate IsUpper h pk (UnaryOp op x) =
     (case evaluate IsUpper h pk x of
        Inl err \<Rightarrow> Inl err
      | Inr v \<Rightarrow> unary_op op v)"
| "evaluate IsUpper h pk (BinaryOp op l r) =
     (case evaluate IsUpper h pk l of
        Inl err \<Rightarrow> Inl err
      | Inr x \<Rightarrow>
          if (op = OpLAnd \<and> x = VBool False) \<or> (op = OpLOr \<and> x = VBool True) then Inr x
          else
            (case evaluate IsUpper h pk r of
               Inl err \<Rightarrow> Inl err
             | Inr y \<Rightarrow> binary_op op x y))"

fun untyped :: "Value \<Rightarrow> BasicType" where
  "untyped VUnknown = Invalid"
| "untyped (VBool b) = UntypedBool"
| "untyped (VString s) = UntypedString"
| "untyped (VInt i) = UntypedInt"
| "untyped (VFloat q) = UntypedFloat"
| "untyped (VComplex re im) = UntypedComplex"

text \<open>
  Modelled from the spec: \<^verbatim>\<open>types.Eval(fset, pkg, pos, expr)\<close>, the data flow of
  section 2: text, tokens, tree, value. The first error ends the evaluation.
\<close>

definition types_Eval :: "(nat \<Rightarrow> bool) \<Rightarrow> Heap \<Rightarrow> addr option \<Rightarrow> string \<Rightarrow> error + TypeAndValue" where
  "types_Eval IsUpper h pk expr =
     (case parse_text expr of
        Inl err \<Rightarrow> Inl err
      | Inr tree \<Rightarrow>
          (case evaluate IsUpper h pk tree of
             Inl err \<Rightarrow> Inl err
           | Inr v \<Rightarrow> Inr \<lparr>Type = untyped v, Value = v\<rparr>))"

subsection \<open>Machine floats\<close>

text \<open>
  A \<^verbatim>\<open>float64\<close> or \<^verbatim>\<open>float32\<close> is not-a-number, an infinity or a finite value,
  held as the rational it denotes (the sign of zero is not kept).

  Modelled from the spec: the narrowing of an exact rational to a machine float
  (\<^verbatim>\<open>constant.Float64Val\<close>, \<^verbatim>\<open>constant.Float32Val\<close>), section 4.6: the nearest
  representable binary float, ties to the even mantissa, an infinity beyond the range.
\<close>

datatype ieee_float = NaN | PosInf | NegInf | Finite rat

definition pow2 :: "int \<Rightarrow> rat" where
  "pow2 e = (if 0 \<le> e then 2 ^ nat e else 1 / 2 ^ nat (- e))"

text \<open>For \<open>0 < a\<close>, the exponent \<open>e\<close> with \<open>2 ^ e \<le> a < 2 ^ (e + 1)\<close>.\<close>

definition floor_log2 :: "rat \<Rightarrow> int" where
  "floor_log2 a =
     (let (n, d) = quotient_of a; e = bitlen n - bitlen d
      in if pow2 e \<le> a then e else e - 1)"

definition round_half_even :: "rat \<Rightarrow> int" where
  "round_half_even q =
     (let f = \<lfloor>q\<rfloor>; r = q - of_int f
      in if r < 1 / 2 then f
         else if 1 / 2 < r then f + 1
         else if even f then f else f + 1)"

text \<open>
  \<open>prec\<close> is the number of bits of the mantissa, \<open>emin\<close> the exponent of the smallest
  subnormal, \<open>emax\<close> the exponent of the first power of two out of range.
\<close>

definition round_to_float :: "nat \<Rightarrow> int \<Rightarrow> int \<Rightarrow> rat \<Rightarrow> ieee_float" where
  "round_to_float prec emin emax q =
     (if q = 0 then Finite 0
      else
        (let a = \<bar>q\<bar>;
             u = max (floor_log2 a - int prec + 1) emin;
             v = of_int (round_half_even (a / pow2 u)) * pow2 u
         in if pow2 emax \<le> v then (if 0 < q then PosInf else NegInf)
            else Finite (sgn q * v)))"

definition round_float64 :: "rat \<Rightarrow> ieee_float" where
  "round_float64 q = round_to_float 53 (- 1074) 1024 q"

definition round_float32 :: "rat \<Rightarrow> ieee_float" where
  "round_float32 q = round_to_float 24 (- 149) 128 q"

subsection \<open>Conversions of constant values\<close>

text \<open>
  Modelled from the spec: the functions of \<^verbatim>\<open>go/constant\<close> that \<^verbatim>\<open>main.go\<close>
  calls, section 4.6. \<^verbatim>\<open>ToInt\<close> gives an Int for an Int and for a Float or Complex
  with zero fractional and zero imaginary part; \<^verbatim>\<open>ToFloat\<close> a Float for an Int, a
  Float and a Complex with zero imaginary part; \<^verbatim>\<open>ToComplex\<close> a Complex for every
  numeric value; each gives Unknown otherwise.
\<close>

definition integral :: "rat \<Rightarrow> bool" where
  "integral q = (of_int \<lfloor>q\<rfloor> = q)"

fun constant_ToInt :: "Value \<Rightarrow> Value" where
  "constant_ToInt (VInt i) = VInt i"
| "constant_ToInt (VFloat q) = (if integral q then VInt \<lfloor>q\<rfloor> else VUnknown)"
| "constant_ToInt (VComplex re im) = (if im = 0 \<and> integral re then VInt \<lfloor>re\<rfloor> else VUnknown)"
| "constant_ToInt v = VUnknown"

fun constant_ToFloat :: "Value \<Rightarrow> Value" where
  "constant_ToFloat (VInt i) = VFloat (of_int i)"
| "constant_ToFloat (VFloat q) = VFloat q"
| "constant_ToFloat (VComplex re im) = (if im = 0 then VFloat re else VUnknown)"
| "constant_ToFloat v = VUnknown"

fun constant_ToComplex :: "Value \<Rightarrow> Value" where
  "constant_ToComplex (VInt i) = VComplex (of_int i) 0"
| "constant_ToComplex (VFloat q) = VComplex q 0"
| "constant_ToComplex (VComplex re im) = VComplex re im"
| "constant_ToComplex v = VUnknown"

text \<open>
  \<^verbatim>\<open>Int64Val\<close> and \<^verbatim>\<open>Uint64Val\<close>: the machine integer and whether it is exact, that
  is, whether the value fits in the width.
\<close>

fun constant_Int64Val :: "Value \<Rightarrow> 64 word \<times> bool" where
  "constant_Int64Val (VInt i) = (word_of_int i, - (2 ^ 63) \<le> i \<and> i < 2 ^ 63)"
| "constant_Int64Val v = (0, False)"

fun constant_Uint64Val :: "Value \<Rightarrow> 64 word \<times> bool" where
  "constant_Uint64Val (VInt i) = (word_of_int i, 0 \<le> i \<and> i < 2 ^ 64)"
| "constant_Uint64Val v = (0, False)"

fun constant_Float64Val :: "Value \<Rightarrow> ieee_float \<times> bool" where
  "constant_Float64Val (VInt i) = (round_float64 (of_int i), round_float64 (of_int i) = Finite (of_int i))"
| "constant_Float64Val (VFloat q) = (round_float64 q, round_float64 q = Finite q)"
| "constant_Float64Val v = (Finite 0, False)"

fun constant_Float32Val :: "Value \<Rightarrow> ieee_float \<times> bool" where
  "constant_Float32Val (VInt i) = (round_float32 (of_int i), round_float32 (of_int i) = Finite (of_int i))"
| "constant_Float32Val (VFloat q) = (round_float32 q, round_float32 q = Finite q)"
| "constant_Float32Val v = (Finite 0, False)"

fun constant_Real :: "Value \<Rightarrow> Value" where
  "constant_Real (VComplex re im) = VFloat re"
| "constant_Real (VInt i) = VInt i"
| "constant_Real (VFloat q) = VFloat q"
| "constant_Real v = VUnknown"

fun constant_Imag :: "Value \<Rightarrow> Value" where
  "constant_Imag (VComplex re im) = VFloat im"
| "constant_Imag (VInt i) = VInt 0"
| "constant_Imag (VFloat q) = VInt 0"
| "constant_Imag v = VUnknown"

fun constant_BoolVal :: "Value \<Rightarrow> bool" where
  "constant_BoolVal (VBool b) = b"
| "constant_BoolVal v = False"

fun constant_StringVal :: "Value \<Rightarrow> string" where
  "constant_StringVal (VString str) = str"
| "constant_StringVal v = []"

text \<open>
  The constructors: \<^verbatim>\<open>MakeFloat64\<close> gives Unknown for a value that is not finite.
\<close>

definition constant_MakeBool :: "bool \<Rightarrow> Value" where
  "constant_MakeBool b = VBool b"

definition constant_MakeString :: "string \<Rightarrow> Value" where
  "constant_MakeString str = VString str"

definition constant_MakeInt64 :: "64 word \<Rightarrow> Value" where
  "constant_MakeInt64 x = VInt (sint x)"

definition constant_MakeUint64 :: "64 word \<Rightarrow> Value" where
  "constant_MakeUint64 x = VInt (uint x)"

definition constant_MakeFloat64 :: "ieee_float \<Rightarrow> Value" where
  "constant_MakeFloat64 x = (case x of Finite q \<Rightarrow> VFloat q | _ \<Rightarrow> VUnknown)"

definition constant_MakeImag :: "Value \<Rightarrow> Value" where
  "constant_MakeImag x =
     (case x of
        VInt i \<Rightarrow> VComplex 0 (of_int i)
      | VFloat q \<Rightarrow> VComplex 0 q
      | _ \<Rightarrow> VUnknown)"

text \<open>\<^verbatim>\<open>constant.BinaryOp\<close>: Unknown where the operation is not defined.\<close>

definition constant_BinaryOp :: "Value \<Rightarrow> operator \<Rightarrow> Value \<Rightarrow> Value" where
  "constant_BinaryOp x op y = (case binary_op op x y of Inl err \<Rightarrow> VUnknown | Inr v \<Rightarrow> v)"

subsection \<open>The Scope and its narrowing methods\<close>

text \<open>
  From here on the definitions follow \<^verbatim>\<open>main.go\<close>. A method on \<^verbatim>\<open>*Scope\<close> takes
  the Scope and the heap and returns them updated; a narrowing method returns the pair
  of Go, the value and the error (\<open>None\<close> for nil).

  \<^verbatim>\<open>func (s Scope) eval(expr string) (constant.Value, error)\<close>
\<close>

definition Scope_eval :: "(nat \<Rightarrow> bool) \<Rightarrow> Heap \<Rightarrow> Scope \<Rightarrow> string \<Rightarrow> error + Value" where
  "Scope_eval IsUpper h s expr =
     (case types_Eval IsUpper h (p s) expr of
        Inl err \<Rightarrow> Inl err
      | Inr tv \<Rightarrow> Inr (Value tv))"

text \<open>\<^verbatim>\<open>func (s *Scope) pack() *types.Package\<close>: allocates the package on first use.\<close>

definition pack :: "Scope \<Rightarrow> Heap \<Rightarrow> addr \<times> Scope \<times> Heap" where
  "pack s h =
     (case p s of
        None \<Rightarrow> (length h, s\<lparr>p := Some (length h)\<rparr>, h @ [NewPackage ''main'' ''main''])
      | Some a \<Rightarrow> (a, s, h))"

text \<open>\<^verbatim>\<open>func (s *Scope) assign(name string, tv types.TypeAndValue)\<close>\<close>

definition assign :: "string \<Rightarrow> TypeAndValue \<Rightarrow> Scope \<Rightarrow> Heap \<Rightarrow> Scope \<times> Heap" where
  "assign n tv s h =
     (let (a, s1, h1) = pack s h;
          (a', s2, h2) = pack s1 h1
      in (s2, insert_into h2 a (Const a' n (Type tv) (Value tv))))"

definition Scope_Float64 :: "(nat \<Rightarrow> bool) \<Rightarrow> Heap \<Rightarrow> Scope \<Rightarrow> string \<Rightarrow> ieee_float \<times> error option" where
  "Scope_Float64 IsUpper h s expr =
     (case Scope_eval IsUpper h s expr of
        Inl err \<Rightarrow> (NaN, Some err)
      | Inr val \<Rightarrow>
          (let fval = constant_ToFloat val
           in if Kind_of fval = KUnknown
              then (NaN, Some (NotRepresentable (Kind_of val) ''float'' expr))
              else (fst (constant_Float64Val fval), None)))"

definition Scope_Float32 :: "(nat \<Rightarrow> bool) \<Rightarrow> Heap \<Rightarrow> Scope \<Rightarrow> string \<Rightarrow> ieee_float \<times> error option" where
  "Scope_Float32 IsUpper h s expr =
     (case Scope_eval IsUpper h s expr of
        Inl err \<Rightarrow> (NaN, Some err)
      | Inr val \<Rightarrow>
          (let fval = constant_ToFloat val
           in if Kind_of fval = KUnknown
              then (NaN, Some (NotRepresentable (Kind_of val) ''float'' expr))
              else (fst (constant_Float32Val fval), None)))"

text \<open>A complex number of Go is its real and imaginary parts; \<open>cplx\<close> starts as zero.\<close>

type_synonym go_complex = "ieee_float \<times> ieee_float"

definition Scope_Complex128 :: "(nat \<Rightarrow> bool) \<Rightarrow> Heap \<Rightarrow> Scope \<Rightarrow> string \<Rightarrow> go_complex \<times> error option" where
  "Scope_Complex128 IsUpper h s expr =
     (let cplx = (Finite 0, Finite 0)
      in case Scope_eval IsUpper h s expr of
           Inl err \<Rightarrow> (cplx, Some err)
         | Inr val \<Rightarrow>
             (let fval = constant_ToComplex val
              in if Kind_of fval = KUnknown
                 then (cplx, Some (NotRepresentable (Kind_of val) ''complex'' expr))
                 else ((fst (constant_Float64Val (constant_Real fval)),
                        fst (constant_Float64Val (constant_Imag fval))), None)))"

definition Scope_Complex64 :: "(nat \<Rightarrow> bool) \<Rightarrow> Heap \<Rightarrow> Scope \<Rightarrow> string \<Rightarrow> go_complex \<times> error option" where
  "Scope_Complex64 IsUpper h s expr =
     (let cplx = (Finite 0, Finite 0)
      in case Scope_eval IsUpper h s expr of
           Inl err \<Rightarrow> (cplx, Some err)
         | Inr val \<Rightarrow>
             (let fval = constant_ToComplex val
              in if Kind_of fval = KUnknown
                 then (cplx, Some (NotRepresentable (Kind_of val) ''complex'' expr))
                 else ((fst (constant_Float32Val (constant_Real fval)),
                        fst (constant_Float32Val (constant_Imag fval))), None)))"

definition Scope_Int :: "(nat \<Rightarrow> bool) \<Rightarrow> Heap \<Rightarrow> Scope \<Rightarrow> string \<Rightarrow> 64 word \<times> error option" where
  "Scope_Int IsUpper h s expr =
     (case Scope_eval IsUpper h s expr of
        Inl err \<Rightarrow> (0, Some err)
      | Inr val \<Rightarrow>
          (let ival = constant_ToInt val
           in if Kind_of ival = KUnknown
              then (0, Some (NotRepresentable (Kind_of val) ''int'' expr))
              else
                (let (i, ok) = constant_Int64Val ival
                 in if \<not> ok then (0, Some (NotRepresentable (Kind_of val) ''int64'' expr))
                    else (i, None))))"

definition Scope_Uint :: "(nat \<Rightarrow> bool) \<Rightarrow> Heap \<Rightarrow> Scope \<Rightarrow> string \<Rightarrow> 64 word \<times> error option" where
  "Scope_Uint IsUpper h s expr =
     (case Scope_eval IsUpper h s expr of
        Inl err \<Rightarrow> (0, Some err)
      | Inr val \<Rightarrow>
          (let ival = constant_ToInt val
           in if Kind_of ival = KUnknown
              then (0, Some (NotRepresentable (Kind_of val) ''int'' expr))
              else
                (let (i, ok) = constant_Uint64Val ival
                 in if \<not> ok then (0, Some (NotRepresentable (Kind_of val) ''uint64'' expr))
                    else (i, None))))"

definition Scope_Bool :: "(nat \<Rightarrow> bool) \<Rightarrow> Heap \<Rightarrow> Scope \<Rightarrow> string \<Rightarrow> bool \<times> error option" where
  "Scope_Bool IsUpper h s expr =
     (case Scope_eval IsUpper h s expr of
        Inl err \<Rightarrow> (False, Some err)
      | Inr val \<Rightarrow>
          if Kind_of val \<noteq> KBool
          then (False, Some (NotRepresentable (Kind_of val) ''bool'' expr))
          else (constant_BoolVal val, None))"

definition Scope_String :: "(nat \<Rightarrow> bool) \<Rightarrow> Heap \<Rightarrow> Scope \<Rightarrow> string \<Rightarrow> string \<times> error option" where
  "Scope_String IsUpper h s expr =
     (case Scope_eval IsUpper h s expr of
        Inl err \<Rightarrow> ([], Some err)
      | Inr val \<Rightarrow>
          if Kind_of val \<noteq> KString
          then ([], Some (NotRepresentable (Kind_of val) ''string'' expr))
          else (constant_StringVal val, None))"

text \<open>The package-level functions: each is the method of the zero Scope, \<^verbatim>\<open>Scope{}\<close>.\<close>

definition calc_Float32 :: "(nat \<Rightarrow> bool) \<Rightarrow> Heap \<Rightarrow> string \<Rightarrow> ieee_float \<times> error option" where
  "calc_Float32 IsUpper h expr = Scope_Float32 IsUpper h \<lparr>p = None\<rparr> expr"

definition calc_Float64 :: "(nat \<Rightarrow> bool) \<Rightarrow> Heap \<Rightarrow> string \<Rightarrow> ieee_float \<times> error option" where
  "calc_Float64 IsUpper h expr = Scope_Float64 IsUpper h \<lparr>p = None\<rparr> expr"

definition calc_Complex64 :: "(nat \<Rightarrow> bool) \<Rightarrow> Heap \<Rightarrow> string \<Rightarrow> go_complex \<times> error option" where
  "calc_Complex64 IsUpper h expr = Scope_Complex64 IsUpper h \<lparr>p = None\<rparr> expr"

definition calc_Complex128 :: "(nat \<Rightarrow> bool) \<Rightarrow> Heap \<Rightarrow> string \<Rightarrow> go_complex \<times> error option" where
  "calc_Complex128 IsUpper h expr = Scope_Complex128 IsUpper h \<lparr>p = None\<rparr> expr"

definition calc_Int :: "(nat \<Rightarrow> bool) \<Rightarrow> Heap \<Rightarrow> string \<Rightarrow> 64 word \<times> error option" where
  "calc_Int IsUpper h expr = Scope_Int IsUpper h \<lparr>p = None\<rparr> expr"

definition calc_Uint :: "(nat \<Rightarrow> bool) \<Rightarrow> Heap \<Rightarrow> string \<Rightarrow> 64 word \<times> error option" where
  "calc_Uint IsUpper h expr = Scope_Uint IsUpper h \<lparr>p = None\<rparr> expr"

definition calc_Bool :: "(nat \<Rightarrow> bool) \<Rightarrow> Heap \<Rightarrow> string \<Rightarrow> bool \<times> error option" where
  "calc_Bool IsUpper h expr = Scope_Bool IsUpper h \<lparr>p = None\<rparr> expr"

definition calc_String :: "(nat \<Rightarrow> bool) \<Rightarrow> Heap \<Rightarrow> string \<Rightarrow> string \<times> error option" where
  "calc_String IsUpper h expr = Scope_String IsUpper h \<lparr>p = None\<rparr> expr"

subsection \<open>Assign, AssignValue and Import\<close>

text \<open>\<^verbatim>\<open>func (s *Scope) Assign(name, expr string) error\<close>\<close>

definition Assign :: "(nat \<Rightarrow> bool) \<Rightarrow> string \<Rightarrow> string \<Rightarrow> Scope \<Rightarrow> Heap \<Rightarrow> error option \<times> Scope \<times> Heap" where
  "Assign IsUpper n expr s h =
     (case types_Eval IsUpper h (p s) expr of
        Inl err \<Rightarrow> (Some err, s, h)
      | Inr tv \<Rightarrow> (let (s', h') = assign n tv s h in (None, s', h')))"

text \<open>
  The dynamic value passed to \<^verbatim>\<open>AssignValue\<close> as \<^verbatim>\<open>any\<close>: one constructor for each
  type of the type switch, and \<open>V_other\<close>, with the name of its type, for a value of
  any other type. \<^verbatim>\<open>int\<close> and \<^verbatim>\<open>uint\<close> are taken to be 64 bits wide.
\<close>

datatype GoValue =
    V_float64 ieee_float
  | V_float32 ieee_float
  | V_complex128 ieee_float ieee_float
  | V_complex64 ieee_float ieee_float
  | V_int64 "64 word"
  | V_int32 "32 word"
  | V_int16 "16 word"
  | V_int8 "8 word"
  | V_int "64 word"
  | V_uint64 "64 word"
  | V_uint32 "32 word"
  | V_uint16 "16 word"
  | V_uint8 "8 word"
  | V_uint "64 word"
  | V_bool bool
  | V_string string
  | V_other string

datatype panic = Panic string

text \<open>\<^verbatim>\<open>func (s *Scope) AssignValue(name string, v any)\<close>; the default case panics.\<close>

definition AssignValue :: "string \<Rightarrow> GoValue \<Rightarrow> Scope \<Rightarrow> Heap \<Rightarrow> panic + Scope \<times> Heap" where
  "AssignValue n v s h =
     (case v of
        V_float64 x \<Rightarrow>
          Inr (assign n \<lparr>Type = UntypedFloat, Value = constant_MakeFloat64 x\<rparr> s h)
      | V_float32 x \<Rightarrow>
          Inr (assign n \<lparr>Type = UntypedFloat, Value = constant_MakeFloat64 x\<rparr> s h)
      | V_complex128 re im \<Rightarrow>
          (let x = constant_MakeFloat64 re; y = constant_MakeFloat64 im
           in Inr (assign n \<lparr>Type = UntypedComplex,
                              Value = constant_BinaryOp x OpAdd (constant_MakeImag y)\<rparr> s h))
      | V_complex64 re im \<Rightarrow>
          (let x = constant_MakeFloat64 re; y = constant_MakeFloat64 im
           in Inr (assign n \<lparr>Type = UntypedComplex,
                              Value = constant_BinaryOp x OpAdd (constant_MakeImag y)\<rparr> s h))
      | V_int64 x \<Rightarrow>
          Inr (assign n \<lparr>Type = UntypedInt, Value = constant_MakeInt64 x\<rparr> s h)
      | V_int32 x \<Rightarrow>
          Inr (assign n \<lparr>Type = UntypedInt, Value = constant_MakeInt64 (signed x)\<rparr> s h)
      | V_int16 x \<Rightarrow>
          Inr (assign n \<lparr>Type = UntypedInt, Value = constant_MakeInt64 (signed x)\<rparr> s h)
      | V_int8 x \<Rightarrow>
          Inr (assign n \<lparr>Type = UntypedInt, Value = constant_MakeInt64 (signed x)\<rparr> s h)
      | V_int x \<Rightarrow>
          Inr (assign n \<lparr>Type = UntypedInt, Value = constant_MakeInt64 x\<rparr> s h)
      | V_uint64 x \<Rightarrow>
          Inr (assign n \<lparr>Type = UntypedInt, Value = constant_MakeUint64 x\<rparr> s h)
      | V_uint32 x \<Rightarrow>
          Inr (assign n \<lparr>Type = UntypedInt, Value = constant_MakeUint64 (unsigned x)\<rparr> s h)
      | V_uint16 x \<Rightarrow>
          Inr (assign n \<lparr>Type = UntypedInt, Value = constant_MakeUint64 (unsigned x)\<rparr> s h)
      | V_uint8 x \<Rightarrow>
          Inr (assign n \<lparr>Type = UntypedInt, Value = constant_MakeUint64 (unsigned x)\<rparr> s h)
      | V_uint x \<Rightarrow>
          Inr (assign n \<lparr>Type = UntypedInt, Value = constant_MakeUint64 x\<rparr> s h)
      | V_bool x \<Rightarrow>
          Inr (assign n \<lparr>Type = UntypedBool, Value = constant_MakeBool x\<rparr> s h)
      | V_string x \<Rightarrow>
          Inr (assign n \<lparr>Type = UntypedString, Value = constant_MakeString x\<rparr> s h)
      | V_other t \<Rightarrow> Inl (Panic (''unsupported type '' @ t)))"

text \<open>
  \<^verbatim>\<open>func (s *Scope) Import(name string, lib *Scope) error\<close>: the error comes before
  any allocation; otherwise the packages of \<open>s\<close> and of \<open>lib\<close> are allocated where they
  are nil and the package name is inserted into the scope of \<open>s\<close>. The result is the
  error, the Scope, the library Scope and the heap; the Scope and the library are two
  variables.
\<close>

definition Import :: "(nat \<Rightarrow> bool) \<Rightarrow> string \<Rightarrow> Scope \<Rightarrow> Scope \<Rightarrow> Heap \<Rightarrow> error option \<times> Scope \<times> Scope \<times> Heap" where
  "Import IsUpper n lib s h =
     (let ch = fst (DecodeRuneInString n)
      in if IsUpper ch then (Some (NamespaceError n ''package names cannot be exported''), s, lib, h)
         else
           (let (a, s1, h1) = pack s h;
                (b, lib1, h2) = pack lib h1;
                pkgName = PkgName a n b;
                (a', s2, h3) = pack s1 h2
            in (None, s2, lib1, insert_into h3 a' pkgName)))"

subsection \<open>Auxiliary definitions of the properties\<close>

text \<open>
  The upper-case letters of ASCII: an instance of the parameter \<open>IsUpper\<close>, which
  agrees with \<^verbatim>\<open>unicode.IsUpper\<close> on ASCII.
\<close>

definition ascii_upper :: "nat \<Rightarrow> bool" where
  "ascii_upper r = (65 \<le> r \<and> r \<le> 90)"

text \<open>
  The sixteen kinds of native value that the documentation of \<^verbatim>\<open>AssignValue\<close> lists.
\<close>

fun recognized :: "GoValue \<Rightarrow> bool" where
  "recognized (V_float64 x) = True"
| "recognized (V_float32 x) = True"
| "recognized (V_complex128 re im) = True"
| "recognized (V_complex64 re im) = True"
| "recognized (V_int64 x) = True"
| "recognized (V_int32 x) = True"
| "recognized (V_int16 x) = True"
| "recognized (V_int8 x) = True"
| "recognized (V_int x) = True"
| "recognized (V_uint64 x) = True"
| "recognized (V_uint32 x) = True"
| "recognized (V_uint16 x) = True"
| "recognized (V_uint8 x) = True"
| "recognized (V_uint x) = True"
| "recognized (V_bool x) = True"
| "recognized (V_string x) = True"
| "recognized (V_other t) = False"

text \<open>A Scope is valid in a heap when its pointer is nil or points into the heap.\<close>

definition valid_scope :: "Heap \<Rightarrow> Scope \<Rightarrow> bool" where
  "valid_scope h s = (case p s of None \<Rightarrow> True | Some a \<Rightarrow> a < length h)"

text \<open>
  An integer literal with an optional minus sign in front: the operands of the sums of
  the exactness property, and their values. The sign is not part of the literal: it is
  read as the unary operator.
\<close>

definition signed_literal :: "string \<Rightarrow> int option" where
  "signed_literal s =
     (case s of
        [] \<Rightarrow> None
      | c # r \<Rightarrow> if c = CHR ''-'' then map_option uminus (int_literal r) else int_literal s)"

definition negated :: "string \<Rightarrow> bool" where
  "negated s = (case s of [] \<Rightarrow> False | c # r \<Rightarrow> c = CHR ''-'')"

text \<open>The tokens and the tree of a signed literal of value \<open>v\<close> at offset \<open>pos\<close>.\<close>

definition operand_tokens :: "nat \<Rightarrow> string \<Rightarrow> int \<Rightarrow> token list" where
  "operand_tokens pos s v =
     (if negated s then [(Tok_Op OpSub, pos), (Tok_Int (- v), Suc pos)] else [(Tok_Int v, pos)])"

definition operand_expr :: "string \<Rightarrow> int \<Rightarrow> expr" where
  "operand_expr s v = (if negated s then UnaryOp OpSub (Literal (VInt (- v))) else Literal (VInt v))"

section \<open>Properties\<close>

subsection \<open>The zero Scope\<close>

text \<open>Under a nil package pointer no name is bound, and the heap is never read.\<close>

lemma evaluate_nil: "evaluate U h None x = evaluate U h' None x"
proof (induction x)
  case (Identifier ns n)
  then show ?case by (cases ns) (simp_all add: Lookup_def)
qed (simp_all cong: sum.case_cong if_cong)

lemma types_Eval_nil: "types_Eval U h None e = types_Eval U h' None e"
  by (simp add: types_Eval_def evaluate_nil [of U h _ h'] cong: sum.case_cong)

lemma Scope_eval_nil: "Scope_eval U h \<lparr>p = None\<rparr> e = Scope_eval U h' \<lparr>p = None\<rparr> e"
  by (simp add: Scope_eval_def types_Eval_nil [of U h e h'])

text \<open>
  Claim C7. For every expression text, each package-level narrowing function is the
  method of the same name on the zero-valued Scope: \<^verbatim>\<open>Int(e) = Scope{}.Int(e)\<close>, and
  likewise for Uint, Float64, Float32, Complex128, Complex64, Bool and String. The
  absence of a Scope is an empty Scope: the result does not depend on the packages that
  exist, and is the one obtained in the empty heap.
\<close>

theorem package_functions_zero_scope:
  "calc_Float32 U h e = Scope_Float32 U h \<lparr>p = None\<rparr> e \<and>
   calc_Float64 U h e = Scope_Float64 U h \<lparr>p = None\<rparr> e \<and>
   calc_Complex64 U h e = Scope_Complex64 U h \<lparr>p = None\<rparr> e \<and>
   calc_Complex128 U h e = Scope_Complex128 U h \<lparr>p = None\<rparr> e \<and>
   calc_Int U h e = Scope_Int U h \<lparr>p = None\<rparr> e \<and>
   calc_Uint U h e = Scope_Uint U h \<lparr>p = None\<rparr> e \<and>
   calc_Bool U h e = Scope_Bool U h \<lparr>p = None\<rparr> e \<and>
   calc_String U h e = Scope_String U h \<lparr>p = None\<rparr> e \<and>
   calc_Float32 U h e = calc_Float32 U [] e \<and>
   calc_Float64 U h e = calc_Float64 U [] e \<and>
   calc_Complex64 U h e = calc_Complex64 U [] e \<and>
   calc_Complex128 U h e = calc_Complex128 U [] e \<and>
   calc_Int U h e = calc_Int U [] e \<and>
   calc_Uint U h e = calc_Uint U [] e \<and>
   calc_Bool U h e = calc_Bool U [] e \<and>
   calc_String U h e = calc_String U [] e"
  by (simp add: calc_Float32_def calc_Float64_def calc_Complex64_def calc_Complex128_def
      calc_Int_def calc_Uint_def calc_Bool_def calc_String_def
      Scope_Float32_def Scope_Float64_def Scope_Complex64_def Scope_Complex128_def
      Scope_Int_def Scope_Uint_def Scope_Bool_def Scope_String_def
      Scope_eval_nil [of U h e "[]"])

theorem package_functions_zero_scope_witness:
  "calc_Int ascii_upper [NewPackage ''main'' ''main''] ''2+2'' =
     Scope_Int ascii_upper [NewPackage ''main'' ''main''] \<lparr>p = None\<rparr> ''2+2'' \<and>
   calc_Int ascii_upper [NewPackage ''main'' ''main''] ''2+2'' = calc_Int ascii_upper [] ''2+2'' \<and>
   calc_Bool ascii_upper [NewPackage ''main'' ''main''] ''2+2'' = calc_Bool ascii_upper [] ''2+2''"
  using package_functions_zero_scope [of ascii_upper "[NewPackage ''main'' ''main'']" "''2+2''"]
  by blast

subsection \<open>Narrowing to bool and string\<close>

text \<open>
  Claim C8. Bool and String narrowing require the exact kind: \<^verbatim>\<open>Scope.Bool\<close>
  succeeds exactly when the expression evaluates to a constant value whose kind is Bool,
  and then returns its boolean payload; for a value of any other kind it fails with
  NotRepresentable. \<^verbatim>\<open>Scope.String\<close> does the same with the kind String. No Int,
  Float or Complex is coerced to a bool or a string.
\<close>

theorem bool_string_exact_kind:
  "(snd (Scope_Bool U h s e) = None \<longleftrightarrow> (\<exists>v. Scope_eval U h s e = Inr v \<and> Kind_of v = KBool)) \<and>
   (snd (Scope_String U h s e) = None \<longleftrightarrow> (\<exists>v. Scope_eval U h s e = Inr v \<and> Kind_of v = KString)) \<and>
   (Scope_eval U h s e = Inr v \<longrightarrow>
      (Kind_of v = KBool \<longrightarrow> Scope_Bool U h s e = (constant_BoolVal v, None)) \<and>
      (Kind_of v \<noteq> KBool \<longrightarrow>
         Scope_Bool U h s e = (False, Some (NotRepresentable (Kind_of v) ''bool'' e))) \<and>
      (Kind_of v = KString \<longrightarrow> Scope_String U h s e = (constant_StringVal v, None)) \<and>
      (Kind_of v \<noteq> KString \<longrightarrow>
         Scope_String U h s e = ([], Some (NotRepresentable (Kind_of v) ''string'' e))))"
  by (cases "Scope_eval U h s e") (auto simp: Scope_Bool_def Scope_String_def)

theorem bool_string_exact_kind_witness:
  "Scope_eval ascii_upper [] \<lparr>p = None\<rparr> ''1 < 2'' = Inr (VBool True) \<and>
   Kind_of (VBool True) = KBool \<and> Kind_of (VBool True) \<noteq> KString \<and>
   Scope_Bool ascii_upper [] \<lparr>p = None\<rparr> ''1 < 2'' = (True, None) \<and>
   Scope_String ascii_upper [] \<lparr>p = None\<rparr> ''1 < 2'' =
     ([], Some (NotRepresentable KBool ''string'' ''1 < 2''))"
proof -
  have ev: "Scope_eval ascii_upper [] \<lparr>p = None\<rparr> ''1 < 2'' = Inr (VBool True)"
    by code_simp
  note T = bool_string_exact_kind [of ascii_upper "[]" "\<lparr>p = None\<rparr>" "''1 < 2''" "VBool True"]
  have T3: "(Kind_of (VBool True) = KBool \<longrightarrow>
        Scope_Bool ascii_upper [] \<lparr>p = None\<rparr> ''1 < 2'' = (constant_BoolVal (VBool True), None)) \<and>
      (Kind_of (VBool True) \<noteq> KBool \<longrightarrow>
         Scope_Bool ascii_upper [] \<lparr>p = None\<rparr> ''1 < 2'' =
           (False, Some (NotRepresentable (Kind_of (VBool True)) ''bool'' ''1 < 2''))) \<and>
      (Kind_of (VBool True) = KString \<longrightarrow>
         Scope_String ascii_upper [] \<lparr>p = None\<rparr> ''1 < 2'' = (constant_StringVal (VBool True), None)) \<and>
      (Kind_of (VBool True) \<noteq> KString \<longrightarrow>
         Scope_String ascii_upper [] \<lparr>p = None\<rparr> ''1 < 2'' =
           ([], Some (NotRepresentable (Kind_of (VBool True)) ''string'' ''1 < 2'')))"
    by (rule mp [OF conjunct2 [OF conjunct2 [OF T]] ev])
  show ?thesis
    using ev T3 by simp
qed

subsection \<open>Sentinel values of failing calls\<close>

text \<open>
  Claim C10. On every failing call a narrowing method returns a fixed value beside the
  error: \<^verbatim>\<open>Float64\<close> and \<^verbatim>\<open>Float32\<close> return NaN, \<^verbatim>\<open>Int\<close> and \<^verbatim>\<open>Uint\<close>
  return 0, \<^verbatim>\<open>Complex128\<close> and \<^verbatim>\<open>Complex64\<close> return 0, \<^verbatim>\<open>Bool\<close> returns
  false and \<^verbatim>\<open>String\<close> returns the empty string.
\<close>

theorem failing_calls_return_sentinels:
  "(snd (Scope_Float64 U h s e) \<noteq> None \<longrightarrow> fst (Scope_Float64 U h s e) = NaN) \<and>
   (snd (Scope_Float32 U h s e) \<noteq> None \<longrightarrow> fst (Scope_Float32 U h s e) = NaN) \<and>
   (snd (Scope_Int U h s e) \<noteq> None \<longrightarrow> fst (Scope_Int U h s e) = 0) \<and>
   (snd (Scope_Uint U h s e) \<noteq> None \<longrightarrow> fst (Scope_Uint U h s e) = 0) \<and>
   (snd (Scope_Complex128 U h s e) \<noteq> None \<longrightarrow>
      fst (Scope_Complex128 U h s e) = (Finite 0, Finite 0)) \<and>
   (snd (Scope_Complex64 U h s e) \<noteq> None \<longrightarrow>
      fst (Scope_Complex64 U h s e) = (Finite 0, Finite 0)) \<and>
   (snd (Scope_Bool U h s e) \<noteq> None \<longrightarrow> fst (Scope_Bool U h s e) = False) \<and>
   (snd (Scope_String U h s e) \<noteq> None \<longrightarrow> fst (Scope_String U h s e) = [])"
  by (cases "Scope_eval U h s e")
     (simp_all add: Scope_Float64_def Scope_Float32_def Scope_Int_def Scope_Uint_def
        Scope_Complex128_def Scope_Complex64_def Scope_Bool_def Scope_String_def Let_def
        split: prod.splits)

theorem failing_calls_return_sentinels_witness:
  "snd (Scope_Float64 ascii_upper [] \<lparr>p = None\<rparr> ''x'') \<noteq> None \<and>
   fst (Scope_Float64 ascii_upper [] \<lparr>p = None\<rparr> ''x'') = NaN \<and>
   snd (Scope_Float32 ascii_upper [] \<lparr>p = None\<rparr> ''x'') \<noteq> None \<and>
   fst (Scope_Float32 ascii_upper [] \<lparr>p = None\<rparr> ''x'') = NaN \<and>
   snd (Scope_Int ascii_upper [] \<lparr>p = None\<rparr> ''x'') \<noteq> None \<and>
   fst (Scope_Int ascii_upper [] \<lparr>p = None\<rparr> ''x'') = 0 \<and>
   snd (Scope_Uint ascii_upper [] \<lparr>p = None\<rparr> ''x'') \<noteq> None \<and>
   fst (Scope_Uint ascii_upper [] \<lparr>p = None\<rparr> ''x'') = 0 \<and>
   snd (Scope_Complex128 ascii_upper [] \<lparr>p = None\<rparr> ''x'') \<noteq> None \<and>
   fst (Scope_Complex128 ascii_upper [] \<lparr>p = None\<rparr> ''x'') = (Finite 0, Finite 0) \<and>
   snd (Scope_Complex64 ascii_upper [] \<lparr>p = None\<rparr> ''x'') \<noteq> None \<and>
   fst (Scope_Complex64 ascii_upper [] \<lparr>p = None\<rparr> ''x'') = (Finite 0, Finite 0) \<and>
   snd (Scope_Bool ascii_upper [] \<lparr>p = None\<rparr> ''x'') \<noteq> None \<and>
   fst (Scope_Bool ascii_upper [] \<lparr>p = None\<rparr> ''x'') = False \<and>
   snd (Scope_String ascii_upper [] \<lparr>p = None\<rparr> ''x'') \<noteq> None \<and>
   fst (Scope_String ascii_upper [] \<lparr>p = None\<rparr> ''x'') = []"
proof -
  have ev: "Scope_eval ascii_upper [] \<lparr>p = None\<rparr> ''x'' = Inl (UnknownIdentifier ''x'')"
    by code_simp
  have f: "snd (Scope_Float64 ascii_upper [] \<lparr>p = None\<rparr> ''x'') \<noteq> None"
          "snd (Scope_Float32 ascii_upper [] \<lparr>p = None\<rparr> ''x'') \<noteq> None"
          "snd (Scope_Int ascii_upper [] \<lparr>p = None\<rparr> ''x'') \<noteq> None"
          "snd (Scope_Uint ascii_upper [] \<lparr>p = None\<rparr> ''x'') \<noteq> None"
          "snd (Scope_Complex128 ascii_upper [] \<lparr>p = None\<rparr> ''x'') \<noteq> None"
          "snd (Scope_Complex64 ascii_upper [] \<lparr>p = None\<rparr> ''x'') \<noteq> None"
          "snd (Scope_Bool ascii_upper [] \<lparr>p = None\<rparr> ''x'') \<noteq> None"
          "snd (Scope_String ascii_upper [] \<lparr>p = None\<rparr> ''x'') \<noteq> None"
    by (simp_all add: ev Scope_Float64_def Scope_Float32_def Scope_Int_def Scope_Uint_def
        Scope_Complex128_def Scope_Complex64_def Scope_Bool_def Scope_String_def)
  show ?thesis
    using f failing_calls_return_sentinels [of ascii_upper "[]" "\<lparr>p = None\<rparr>" "''x''"]
    by simp
qed

subsection \<open>AssignValue\<close>

text \<open>
  Claim C9. \<^verbatim>\<open>AssignValue(name, v)\<close> with a value outside the sixteen recognized
  native kinds is fatal: it panics, and returns no error to recover from. With a value
  of a recognized kind it does not panic.
\<close>

theorem AssignValue_panics_iff_unsupported:
  "(recognized v \<longrightarrow> (\<exists>r. AssignValue n v s h = Inr r)) \<and>
   (\<not> recognized v \<longrightarrow> (\<exists>msg. AssignValue n v s h = Inl (Panic msg)))"
  by (cases v) (simp_all add: AssignValue_def Let_def)

theorem AssignValue_panics_iff_unsupported_witness:
  "recognized (V_int64 5) \<and> (\<exists>r. AssignValue ''x'' (V_int64 5) \<lparr>p = None\<rparr> [] = Inr r) \<and>
   \<not> recognized (V_other ''uintptr'') \<and>
   (\<exists>msg. AssignValue ''x'' (V_other ''uintptr'') \<lparr>p = None\<rparr> [] = Inl (Panic msg))"
  using AssignValue_panics_iff_unsupported [of "V_int64 5" "''x''" "\<lparr>p = None\<rparr>" "[]"]
        AssignValue_panics_iff_unsupported [of "V_other ''uintptr''" "''x''" "\<lparr>p = None\<rparr>" "[]"]
  by simp

subsection \<open>Import\<close>

lemma decode_Time: "DecodeRuneInString ''Time'' = (84, 1)"
  by (simp add: DecodeRuneInString_def byte_def)

lemma decode_time: "DecodeRuneInString ''time'' = (116, 1)"
  by (simp add: DecodeRuneInString_def byte_def)

text \<open>
  Claim C6. \<^verbatim>\<open>Import(name, lib)\<close> fails if and only if the name is exported, that is,
  its first character is an upper-case letter; the error is a NamespaceError and no
  binding is added: the Scope, the library and the heap are as before. So
  \<^verbatim>\<open>Import("Time", lib)\<close> fails (\<^verbatim>\<open>T\<close> is code point 84) and
  \<^verbatim>\<open>Import("time", lib)\<close> succeeds (\<^verbatim>\<open>t\<close> is code point 116).
\<close>

theorem Import_fails_iff_exported:
  "(fst (Import U n lib s h) \<noteq> None \<longleftrightarrow> IsExported U n) \<and>
   (IsExported U n \<longrightarrow>
      Import U n lib s h = (Some (NamespaceError n ''package names cannot be exported''), s, lib, h)) \<and>
   (U 84 \<longrightarrow> fst (Import U ''Time'' lib s h) \<noteq> None \<and> snd (Import U ''Time'' lib s h) = (s, lib, h)) \<and>
   (\<not> U 116 \<longrightarrow> fst (Import U ''time'' lib s h) = None)"
  by (simp add: Import_def IsExported_def Let_def decode_Time decode_time split: prod.splits)

theorem Import_fails_iff_exported_witness:
  "IsExported ascii_upper ''Time'' \<and> ascii_upper 84 \<and> \<not> ascii_upper 116 \<and>
   Import ascii_upper ''Time'' \<lparr>p = None\<rparr> \<lparr>p = None\<rparr> [] =
     (Some (NamespaceError ''Time'' ''package names cannot be exported''), \<lparr>p = None\<rparr>, \<lparr>p = None\<rparr>, []) \<and>
   fst (Import ascii_upper ''time'' \<lparr>p = None\<rparr> \<lparr>p = None\<rparr> []) = None"
proof -
  have a: "ascii_upper 84" and b: "\<not> ascii_upper 116"
    by (simp_all add: ascii_upper_def)
  have c: "IsExported ascii_upper ''Time''"
    using a by (simp add: IsExported_def decode_Time)
  show ?thesis
    using a b c
      Import_fails_iff_exported [of ascii_upper "''Time''" "\<lparr>p = None\<rparr>" "\<lparr>p = None\<rparr>" "[]"]
    by simp
qed

subsection \<open>Evaluation order of the logical operators\<close>

lemma parse_undefinedVar:
  "parse_text ''undefinedVar'' = Inr (Identifier None ''undefinedVar'')"
  by code_simp

lemma parse_false_and:
  "parse_text ''false && undefinedVar'' =
     Inr (BinaryOp OpLAnd (Literal (VBool False)) (Identifier None ''undefinedVar''))"
  by code_simp

lemma parse_true_or:
  "parse_text ''true || undefinedVar'' =
     Inr (BinaryOp OpLOr (Literal (VBool True)) (Identifier None ''undefinedVar''))"
  by code_simp

text \<open>
  Claim C2. The evaluation of \<^verbatim>\<open>&&\<close> short-circuits: in every Scope,
  \<^verbatim>\<open>"false && undefinedVar"\<close> narrows to false with no error, although in a Scope
  where \<^verbatim>\<open>undefinedVar\<close> is unbound the right operand alone fails with
  UnknownIdentifier; the right operand is not evaluated. In the same way
  \<^verbatim>\<open>true || X\<close> does not evaluate \<open>X\<close>, whatever expression \<open>X\<close> is.
\<close>

theorem logical_operators_short_circuit:
  "Scope_Bool U h s ''false && undefinedVar'' = (False, None) \<and>
   Scope_Bool U h s ''true || undefinedVar'' = (True, None) \<and>
   (Lookup h (p s) ''undefinedVar'' = None \<longrightarrow>
      Scope_Bool U h s ''undefinedVar'' = (False, Some (UnknownIdentifier ''undefinedVar''))) \<and>
   (evaluate U h pk l = Inr (VBool False) \<longrightarrow>
      evaluate U h pk (BinaryOp OpLAnd l X) = Inr (VBool False)) \<and>
   (evaluate U h pk l = Inr (VBool True) \<longrightarrow>
      evaluate U h pk (BinaryOp OpLOr l X) = Inr (VBool True))"
  by (simp add: Scope_Bool_def Scope_eval_def types_Eval_def
      parse_false_and parse_true_or parse_undefinedVar)

theorem logical_operators_short_circuit_witness:
  "Lookup [] (p \<lparr>p = None\<rparr>) ''undefinedVar'' = None \<and>
   Scope_Bool ascii_upper [] \<lparr>p = None\<rparr> ''undefinedVar'' =
     (False, Some (UnknownIdentifier ''undefinedVar'')) \<and>
   Scope_Bool ascii_upper [] \<lparr>p = None\<rparr> ''false && undefinedVar'' = (False, None) \<and>
   evaluate ascii_upper [] None (Literal (VBool False)) = Inr (VBool False) \<and>
   evaluate ascii_upper [] None
     (BinaryOp OpLAnd (Literal (VBool False)) (Identifier None ''undefinedVar'')) = Inr (VBool False) \<and>
   evaluate ascii_upper [] None (Literal (VBool True)) = Inr (VBool True) \<and>
   evaluate ascii_upper [] None
     (BinaryOp OpLOr (Literal (VBool True)) (Identifier None ''undefinedVar'')) = Inr (VBool True)"
proof -
  have a: "Lookup [] (p \<lparr>p = None\<rparr>) ''undefinedVar'' = None"
    by (simp add: Lookup_def)
  have b: "evaluate ascii_upper [] None (Literal (VBool False)) = Inr (VBool False)"
          "evaluate ascii_upper [] None (Literal (VBool True)) = Inr (VBool True)"
    by simp_all
  show ?thesis
    using a b
      logical_operators_short_circuit [of ascii_upper "[]" "\<lparr>p = None\<rparr>" None
        "Literal (VBool False)" "Identifier None ''undefinedVar''"]
      logical_operators_short_circuit [of ascii_upper "[]" "\<lparr>p = None\<rparr>" None
        "Literal (VBool True)" "Identifier None ''undefinedVar''"]
    by simp
qed

subsection \<open>Narrowing a Float to an integer\<close>

lemma integral_iff: "integral q \<longleftrightarrow> q \<in> \<int>"
  unfolding integral_def by (metis Ints_of_int of_int_floor)

lemma Int_rejects_fraction:
  assumes "Scope_eval U h s e = Inr (VFloat q)" "q \<notin> \<int>"
  shows "Scope_Int U h s e = (0, Some (NotRepresentable KFloat ''int'' e))"
  using assms by (simp add: Scope_Int_def integral_iff)

lemma narrow_examples:
  "calc_Int U h ''2.5*1'' = (0, Some (NotRepresentable KFloat ''int'' ''2.5*1'')) \<and>
   calc_Float64 U h ''2.5*1'' = (Finite (5 / 2), None) \<and>
   calc_Int U h ''2.5*24*60*60'' = (216000, None)"
  by code_simp

text \<open>
  Claim C4. \<^verbatim>\<open>Int\<close> never truncates: when the exact value of the expression is a
  Float with a non-zero fractional part, \<^verbatim>\<open>Scope.Int\<close> returns the NotRepresentable
  error (beside 0) and no truncated integer. \<^verbatim>\<open>Int("2.5*1")\<close> fails while
  \<^verbatim>\<open>Float64("2.5*1")\<close> returns 2.5, and \<^verbatim>\<open>Int("2.5*24*60*60")\<close> returns exactly
  216000.
\<close>

theorem Int_never_truncates:
  "(Scope_eval U h s e = Inr (VFloat q) \<and> q \<notin> \<int> \<longrightarrow>
      Scope_Int U h s e = (0, Some (NotRepresentable KFloat ''int'' e))) \<and>
   calc_Int U h ''2.5*1'' = (0, Some (NotRepresentable KFloat ''int'' ''2.5*1'')) \<and>
   calc_Float64 U h ''2.5*1'' = (Finite (5 / 2), None) \<and>
   calc_Int U h ''2.5*24*60*60'' = (216000, None)"
  using Int_rejects_fraction [of U h s e q] narrow_examples [of U h] by blast

theorem Int_never_truncates_witness:
  "Scope_eval ascii_upper [] \<lparr>p = None\<rparr> ''2.5*1'' = Inr (VFloat (5 / 2)) \<and> (5 / 2 :: rat) \<notin> \<int> \<and>
   Scope_Int ascii_upper [] \<lparr>p = None\<rparr> ''2.5*1'' =
     (0, Some (NotRepresentable KFloat ''int'' ''2.5*1''))"
proof -
  have a: "Scope_eval ascii_upper [] \<lparr>p = None\<rparr> ''2.5*1'' = Inr (VFloat (5 / 2))"
    by code_simp
  have b: "(5 / 2 :: rat) \<notin> \<int>"
    using frac_eq_0_iff [of "5 / 2 :: rat"] by (simp add: frac_def)
  show ?thesis
    using a b Int_never_truncates [of ascii_upper "[]" "\<lparr>p = None\<rparr>" "''2.5*1''" "5 / 2"]
    by blast
qed

subsection \<open>Assign\<close>

lemma assign_bound:
  assumes "Lookup h (p s) n = Some obj"
  shows "assign n tv s h = (s, h)"
proof -
  from assms obtain a where a: "p s = Some a" "a < length h" "pkg_scope (h ! a) n = Some obj"
    by (auto simp: Lookup_def deref_def split: option.splits if_splits)
  then show ?thesis
    by (simp add: assign_def pack_def insert_into_def deref_def Insert_def)
qed

lemma assign_fresh:
  assumes "valid_scope h s" "Lookup h (p s) n = None"
  shows "\<exists>a. p (fst (assign n tv s h)) = Some a \<and>
             Lookup (snd (assign n tv s h)) (Some a) n = Some (Const a n (Type tv) (Value tv))"
proof (cases "p s")
  case None
  then show ?thesis
    by (simp add: assign_def pack_def insert_into_def deref_def Insert_def Lookup_def NewPackage_def)
next
  case (Some a)
  with assms have "a < length h" "pkg_scope (h ! a) n = None"
    by (auto simp: valid_scope_def Lookup_def deref_def)
  with Some show ?thesis
    by (simp add: assign_def pack_def insert_into_def deref_def Insert_def Lookup_def)
qed

lemma parse_1: "parse_text ''1'' = Inr (Literal (VInt 1))"
  by code_simp

lemma parse_2: "parse_text ''2'' = Inr (Literal (VInt 2))"
  by code_simp

lemma parse_x: "parse_text ''x'' = Inr (Identifier None ''x'')"
  by code_simp

lemma Assign_bound:
  assumes "Lookup h (p s) n = Some obj"
  shows "snd (Assign U n e s h) = (s, h)"
    and "types_Eval U h (p s) e = Inr tv \<Longrightarrow> Assign U n e s h = (None, s, h)"
  using assign_bound [OF assms] by (simp_all add: Assign_def split: sum.splits)

lemma Int_of_bound_x:
  assumes "Lookup h (p s) ''x'' = Some (Const a ''x'' t (VInt 1))"
  shows "Scope_Int U h s ''x'' = (1, None)"
  using assms by (simp add: Scope_Int_def Scope_eval_def types_Eval_def parse_x)

lemma Assign_x_twice:
  assumes "valid_scope h s" "Lookup h (p s) ''x'' = None"
  shows "case Assign U ''x'' ''1'' s h of (e1, s1, h1) \<Rightarrow>
           case Assign U ''x'' ''2'' s1 h1 of (e2, s2, h2) \<Rightarrow>
             e1 = None \<and> e2 = None \<and> (s2, h2) = (s1, h1) \<and> Scope_Int U h2 s2 ''x'' = (1, None)"
proof -
  let ?tv = "\<lparr>Type = UntypedInt, Value = VInt 1\<rparr>"
  obtain s1 h1 where sh: "assign ''x'' ?tv s h = (s1, h1)"
    by (cases "assign ''x'' ?tv s h")
  have A1: "Assign U ''x'' ''1'' s h = (None, s1, h1)"
    by (simp add: Assign_def types_Eval_def parse_1 sh)
  from assign_fresh [OF assms, of ?tv] sh
  obtain a where a: "p s1 = Some a" "Lookup h1 (Some a) ''x'' = Some (Const a ''x'' UntypedInt (VInt 1))"
    by auto
  then have L: "Lookup h1 (p s1) ''x'' = Some (Const a ''x'' UntypedInt (VInt 1))"
    by simp
  have E2: "types_Eval U h1 (p s1) ''2'' = Inr \<lparr>Type = UntypedInt, Value = VInt 2\<rparr>"
    by (simp add: types_Eval_def parse_2)
  have A2: "Assign U ''x'' ''2'' s1 h1 = (None, s1, h1)"
    by (rule Assign_bound(2) [OF L E2])
  show ?thesis
    by (simp add: A1 A2 Int_of_bound_x [OF L])
qed

text \<open>
  Claim C3. \<^verbatim>\<open>Assign\<close> is insert-once: in every Scope, when the name is already
  bound, a later \<^verbatim>\<open>Assign\<close> of the same name leaves the binding (indeed the whole
  Scope and heap) untouched, and returns no error when its expression evaluates. After
  \<^verbatim>\<open>Assign("x","1")\<close> and then \<^verbatim>\<open>Assign("x","2")\<close> in a Scope where \<^verbatim>\<open>x\<close> was
  unbound, both return nil, the second changes nothing and \<^verbatim>\<open>x\<close> evaluates to 1.
\<close>

theorem Assign_insert_once:
  "(Lookup h (p s) n = Some obj \<longrightarrow>
      snd (Assign U n e s h) = (s, h) \<and>
      (\<forall>tv. types_Eval U h (p s) e = Inr tv \<longrightarrow> Assign U n e s h = (None, s, h))) \<and>
   (valid_scope h s \<and> Lookup h (p s) ''x'' = None \<longrightarrow>
      (case Assign U ''x'' ''1'' s h of (e1, s1, h1) \<Rightarrow>
         case Assign U ''x'' ''2'' s1 h1 of (e2, s2, h2) \<Rightarrow>
           e1 = None \<and> e2 = None \<and> (s2, h2) = (s1, h1) \<and> Scope_Int U h2 s2 ''x'' = (1, None)))"
proof (rule conjI)
  show "Lookup h (p s) n = Some obj \<longrightarrow>
      snd (Assign U n e s h) = (s, h) \<and>
      (\<forall>tv. types_Eval U h (p s) e = Inr tv \<longrightarrow> Assign U n e s h = (None, s, h))"
  proof (intro impI conjI allI)
    assume L: "Lookup h (p s) n = Some obj"
    show "snd (Assign U n e s h) = (s, h)"
      by (rule Assign_bound(1) [OF L])
    fix tv assume "types_Eval U h (p s) e = Inr tv"
    then show "Assign U n e s h = (None, s, h)"
      by (rule Assign_bound(2) [OF L])
  qed
next
  show "valid_scope h s \<and> Lookup h (p s) ''x'' = None \<longrightarrow>
      (case Assign U ''x'' ''1'' s h of (e1, s1, h1) \<Rightarrow>
         case Assign U ''x'' ''2'' s1 h1 of (e2, s2, h2) \<Rightarrow>
           e1 = None \<and> e2 = None \<and> (s2, h2) = (s1, h1) \<and> Scope_Int U h2 s2 ''x'' = (1, None))"
  proof
    assume "valid_scope h s \<and> Lookup h (p s) ''x'' = None"
    then have "valid_scope h s" "Lookup h (p s) ''x'' = None" by blast+
    then show "case Assign U ''x'' ''1'' s h of (e1, s1, h1) \<Rightarrow>
         case Assign U ''x'' ''2'' s1 h1 of (e2, s2, h2) \<Rightarrow>
           e1 = None \<and> e2 = None \<and> (s2, h2) = (s1, h1) \<and> Scope_Int U h2 s2 ''x'' = (1, None)"
      by (rule Assign_x_twice)
  qed
qed

theorem Assign_insert_once_witness:
  "valid_scope [] \<lparr>p = None\<rparr> \<and> Lookup [] (p \<lparr>p = None\<rparr>) ''x'' = None \<and>
   (case Assign ascii_upper ''x'' ''1'' \<lparr>p = None\<rparr> [] of (e1, s1, h1) \<Rightarrow>
      case Assign ascii_upper ''x'' ''2'' s1 h1 of (e2, s2, h2) \<Rightarrow>
        e1 = None \<and> e2 = None \<and> (s2, h2) = (s1, h1) \<and>
        Scope_Int ascii_upper h2 s2 ''x'' = (1, None)) \<and>
   Lookup [\<lparr>pkg_path = ''main'', pkg_name = ''main'',
            pkg_scope = [''x'' \<mapsto> Const 0 ''x'' UntypedInt (VInt 1)]\<rparr>] (p \<lparr>p = Some 0\<rparr>) ''x''
     = Some (Const 0 ''x'' UntypedInt (VInt 1)) \<and>
   types_Eval ascii_upper
     [\<lparr>pkg_path = ''main'', pkg_name = ''main'',
       pkg_scope = [''x'' \<mapsto> Const 0 ''x'' UntypedInt (VInt 1)]\<rparr>] (p \<lparr>p = Some 0\<rparr>) ''2''
     = Inr \<lparr>Type = UntypedInt, Value = VInt 2\<rparr> \<and>
   Assign ascii_upper ''x'' ''2'' \<lparr>p = Some 0\<rparr>
     [\<lparr>pkg_path = ''main'', pkg_name = ''main'',
       pkg_scope = [''x'' \<mapsto> Const 0 ''x'' UntypedInt (VInt 1)]\<rparr>]
     = (None, \<lparr>p = Some 0\<rparr>,
        [\<lparr>pkg_path = ''main'', pkg_name = ''main'',
          pkg_scope = [''x'' \<mapsto> Const 0 ''x'' UntypedInt (VInt 1)]\<rparr>])"
proof -
  let ?h = "[\<lparr>pkg_path = ''main'', pkg_name = ''main'',
              pkg_scope = [''x'' \<mapsto> Const 0 ''x'' UntypedInt (VInt 1)]\<rparr>]"
  let ?o = "Const 0 ''x'' UntypedInt (VInt 1)"
  have a: "valid_scope [] \<lparr>p = None\<rparr> \<and> Lookup [] (p \<lparr>p = None\<rparr>) ''x'' = None"
    by (simp add: valid_scope_def Lookup_def)
  have b: "Lookup ?h (p \<lparr>p = Some 0\<rparr>) ''x'' = Some ?o"
    by (simp add: Lookup_def deref_def)
  have c: "types_Eval ascii_upper ?h (p \<lparr>p = Some 0\<rparr>) ''2'' = Inr \<lparr>Type = UntypedInt, Value = VInt 2\<rparr>"
    by (simp add: types_Eval_def parse_2)
  note T1 = Assign_insert_once [of "[]" "\<lparr>p = None\<rparr>" "''x''" ?o ascii_upper "''2''"]
  note T2 = Assign_insert_once [of ?h "\<lparr>p = Some 0\<rparr>" "''x''" ?o ascii_upper "''2''"]
  have d: "case Assign ascii_upper ''x'' ''1'' \<lparr>p = None\<rparr> [] of (e1, s1, h1) \<Rightarrow>
      case Assign ascii_upper ''x'' ''2'' s1 h1 of (e2, s2, h2) \<Rightarrow>
        e1 = None \<and> e2 = None \<and> (s2, h2) = (s1, h1) \<and>
        Scope_Int ascii_upper h2 s2 ''x'' = (1, None)"
    by (rule mp [OF conjunct2 [OF T1] a])
  have "\<forall>tv. types_Eval ascii_upper ?h (p \<lparr>p = Some 0\<rparr>) ''2'' = Inr tv \<longrightarrow>
     Assign ascii_upper ''x'' ''2'' \<lparr>p = Some 0\<rparr> ?h = (None, \<lparr>p = Some 0\<rparr>, ?h)"
    by (rule conjunct2 [OF mp [OF conjunct1 [OF T2] b]])
  then have e: "Assign ascii_upper ''x'' ''2'' \<lparr>p = Some 0\<rparr> ?h = (None, \<lparr>p = Some 0\<rparr>, ?h)"
    using c by blast
  show ?thesis
    by (intro conjI conjunct1 [OF a] conjunct2 [OF a] d b c e)
qed

subsection \<open>Lookup through an import\<close>

lemma parse_time_texts:
  "parse_text ''60*S'' = Inr (BinaryOp OpMul (Literal (VInt 60)) (Identifier None ''S'')) \<and>
   parse_text ''60*M'' = Inr (BinaryOp OpMul (Literal (VInt 60)) (Identifier None ''M'')) \<and>
   parse_text ''24*H'' = Inr (BinaryOp OpMul (Literal (VInt 24)) (Identifier None ''H'')) \<and>
   parse_text ''2*time.D + 4*time.H'' =
     Inr (BinaryOp OpAdd
           (BinaryOp OpMul (Literal (VInt 2)) (Identifier (Some ''time'') ''D''))
           (BinaryOp OpMul (Literal (VInt 4)) (Identifier (Some ''time'') ''H'')))"
  by code_simp

lemma decode_D: "DecodeRuneInString ''D'' = (68, 1)"
  by (simp add: DecodeRuneInString_def byte_def)
lemma decode_H: "DecodeRuneInString ''H'' = (72, 1)"
  by (simp add: DecodeRuneInString_def byte_def)

lemma int_mul_add: "binary_op OpMul (VInt i) (VInt j) = Inr (VInt (i * j))"
  "binary_op OpAdd (VInt i) (VInt j) = Inr (VInt (i + j))"
  by (simp_all add: binary_op_def match_kinds_def least_upper_kind_def int_op_def)

text \<open>
  Claim C5. Lookup through an import is exact. A library Scope is given the entries
  \<^verbatim>\<open>S=1\<close>, \<^verbatim>\<open>M=60*S\<close>, \<^verbatim>\<open>H=60*M\<close>, \<^verbatim>\<open>D=24*H\<close> by \<^verbatim>\<open>Assign\<close> and is
  imported as \<^verbatim>\<open>time\<close> into a Scope \<open>c\<close>; no call returns an error, and
  \<^verbatim>\<open>"2*time.D + 4*time.H"\<close> evaluated in \<open>c\<close> narrows to the Int 187200. Both Scopes
  start as zero values, in any heap. The table of upper-case letters has \<^verbatim>\<open>D\<close> (68)
  and \<^verbatim>\<open>H\<close> (72) upper case and \<^verbatim>\<open>t\<close> (116) not.
\<close>

theorem import_namespace_example:
  assumes "U 68" "U 72" "\<not> U 116"
  shows "(case Assign U ''S'' ''1'' \<lparr>p = None\<rparr> h0 of (e1, lib1, h1) \<Rightarrow>
          case Assign U ''M'' ''60*S'' lib1 h1 of (e2, lib2, h2) \<Rightarrow>
          case Assign U ''H'' ''60*M'' lib2 h2 of (e3, lib3, h3) \<Rightarrow>
          case Assign U ''D'' ''24*H'' lib3 h3 of (e4, lib4, h4) \<Rightarrow>
          case Import U ''time'' lib4 \<lparr>p = None\<rparr> h4 of (e5, c, lib5, h5) \<Rightarrow>
            e1 = None \<and> e2 = None \<and> e3 = None \<and> e4 = None \<and> e5 = None \<and>
            Scope_Int U h5 c ''2*time.D + 4*time.H'' = (187200, None))"
  using assms
  by (simp add: Assign_def assign_def pack_def insert_into_def deref_def Insert_def Lookup_def
      NewPackage_def types_Eval_def parse_1 parse_time_texts Import_def decode_time decode_D decode_H
      IsExported_def Scope_Int_def Scope_eval_def int_mul_add nth_append)

theorem import_namespace_example_witness:
  "ascii_upper 68 \<and> ascii_upper 72 \<and> \<not> ascii_upper 116 \<and>
   (case Assign ascii_upper ''S'' ''1'' \<lparr>p = None\<rparr> [] of (e1, lib1, h1) \<Rightarrow>
    case Assign ascii_upper ''M'' ''60*S'' lib1 h1 of (e2, lib2, h2) \<Rightarrow>
    case Assign ascii_upper ''H'' ''60*M'' lib2 h2 of (e3, lib3, h3) \<Rightarrow>
    case Assign ascii_upper ''D'' ''24*H'' lib3 h3 of (e4, lib4, h4) \<Rightarrow>
    case Import ascii_upper ''time'' lib4 \<lparr>p = None\<rparr> h4 of (e5, c, lib5, h5) \<Rightarrow>
      e1 = None \<and> e2 = None \<and> e3 = None \<and> e4 = None \<and> e5 = None \<and>
      Scope_Int ascii_upper h5 c ''2*time.D + 4*time.H'' = (187200, None))"
proof -
  have a: "ascii_upper 68" and b: "ascii_upper 72" and c: "\<not> ascii_upper 116"
    by (simp_all add: ascii_upper_def)
  show ?thesis
    by (intro conjI a b c import_namespace_example [OF a b c])
qed

subsection \<open>Exactness of integer addition\<close>

lemma digit_number_char: "digit_val c < 16 \<Longrightarrow> is_number_char c"
  by (auto simp: digit_val_def is_number_char_def is_decimal_def is_letter_def split: if_splits)

lemma digit_decimal: "digit_val c < 10 \<Longrightarrow> is_decimal c"
  by (auto simp: digit_val_def is_decimal_def split: if_splits)

lemma sep_number_char: "is_sep c \<Longrightarrow> is_number_char c"
  by (simp add: is_sep_def is_number_char_def is_letter_def)

lemma grouped_digits_chars:
  assumes "grouped_digits prev base ds = Some v" "base \<le> 16" "c \<in> set ds"
  shows "is_number_char c"
proof (cases "is_sep c")
  case True
  then show ?thesis by (rule sep_number_char)
next
  case False
  with assms have "digit_val c < base"
    by (auto simp: grouped_digits_def digits_val_def Let_def list_all_iff split: if_splits)
  with assms(2) show ?thesis by (intro digit_number_char) simp
qed

lemma grouped_decimal_head:
  assumes "grouped_digits False 10 s = Some v"
  shows "\<exists>c cs. s = c # cs \<and> is_decimal c"
proof (cases s)
  case Nil
  with assms show ?thesis by (simp add: grouped_digits_def digits_val_def)
next
  case (Cons c cs)
  with assms have "\<not> is_sep c" "digit_val c < 10"
    by (auto simp: grouped_digits_def digits_val_def Let_def split: if_splits)
  with Cons show ?thesis by (simp add: digit_decimal)
qed

lemma int_literal_head:
  assumes "int_literal a = Some v"
  shows "\<exists>c cs. a = c # cs \<and> is_decimal c"
proof -
  have z: "is_decimal (CHR ''0'')" by (simp add: is_decimal_def byte_def)
  show ?thesis
    using assms z
    by (auto simp: int_literal_def split: list.splits if_splits dest: grouped_decimal_head)
qed

lemma int_literal_cases:
  assumes "int_literal a = Some v"
  obtains (dec) "grouped_digits False 10 a = Some v"
  | (hex) c1 ds where "a = CHR ''0'' # c1 # ds" "c1 = CHR ''x'' \<or> c1 = CHR ''X''"
      "grouped_digits True 16 ds = Some v"
  | (bin) c1 ds where "a = CHR ''0'' # c1 # ds" "c1 = CHR ''b'' \<or> c1 = CHR ''B''"
      "grouped_digits True 2 ds = Some v"
  | (oct) c1 ds where "a = CHR ''0'' # c1 # ds" "grouped_digits True 8 (c1 # ds) = Some v"
  using assms by (auto simp: int_literal_def split: list.splits if_splits)

lemma int_literal_chars:
  assumes "int_literal a = Some v" "c \<in> set a"
  shows "is_number_char c"
proof -
  have z: "is_number_char (CHR ''0'')" "is_number_char (CHR ''x'')" "is_number_char (CHR ''X'')"
    "is_number_char (CHR ''b'')" "is_number_char (CHR ''B'')"
    by (simp_all add: is_number_char_def is_decimal_def is_letter_def byte_def)
  from assms(1) show ?thesis
  proof (cases rule: int_literal_cases)
    case dec
    then show ?thesis
      using assms(2) grouped_digits_chars [of False 10 a v c] by simp
  next
    case (hex c1 ds)
    then show ?thesis
      using assms(2) z grouped_digits_chars [of True 16 ds v c] by auto
  next
    case (bin c1 ds)
    then show ?thesis
      using assms(2) z grouped_digits_chars [of True 2 ds v c] by auto
  next
    case (oct c1 ds)
    then show ?thesis
      using assms(2) z grouped_digits_chars [of True 8 "c1 # ds" v c] by auto
  qed
qed

lemma decimal_not_space: "is_decimal c \<Longrightarrow> \<not> is_space c"
  by (auto simp: is_decimal_def is_space_def byte_def)

lemma space_not_number: "\<not> is_number_char (CHR '' '')"
  by (simp add: is_number_char_def is_decimal_def is_letter_def byte_def)

lemma scan_number_literal:
  assumes "int_literal a = Some v" "rest = [] \<or> (\<exists>cs. rest = CHR '' '' # cs)"
  shows "scan_number (a @ rest) = a"
proof -
  have all: "\<And>c. c \<in> set a \<Longrightarrow> is_number_char c"
    using assms(1) by (rule int_literal_chars)
  have tw: "takeWhile is_number_char (a @ rest) = a"
    using assms(2) all by (auto simp: takeWhile_append2 space_not_number)
  show ?thesis
    using assms(2) by (auto simp: scan_number_def tw is_sign_def)
qed

lemma scan_token_literal:
  assumes "int_literal a = Some v" "rest = [] \<or> (\<exists>cs. rest = CHR '' '' # cs)"
  shows "scan_token pos (a @ rest) = Inr (Tok_Int v, length a)"
proof -
  from int_literal_head [OF assms(1)] obtain c cs where a: "a = c # cs" "is_decimal c"
    by blast
  have "scan_number ((c # cs) @ rest) = c # cs"
    using scan_number_literal [OF assms] a by simp
  then show ?thesis
    using a assms(1) by (simp add: scan_token_def number_token_def)
qed

lemma tokenize_literal:
  assumes "int_literal a = Some v" "rest = [] \<or> (\<exists>cs. rest = CHR '' '' # cs)"
  shows "tokenize_from pos (a @ rest) =
           (case tokenize_from (pos + length a) rest of
              Inl e \<Rightarrow> Inl e
            | Inr ts \<Rightarrow> Inr ((Tok_Int v, pos) # ts))"
proof -
  from int_literal_head [OF assms(1)] obtain c cs where a: "a = c # cs" "is_decimal c"
    by blast
  have st: "scan_token pos (c # cs @ rest) = Inr (Tok_Int v, Suc (length cs))"
    using scan_token_literal [OF assms, of pos] a by simp
  show ?thesis
    using a decimal_not_space [OF a(2)] by (simp add: st)
qed


lemma sint_fits:
  assumes "- (2 ^ 63) \<le> x" "x < 2 ^ 63"
  shows "sint (word_of_int x :: 64 word) = x"
  using assms by (simp add: sint_sbintrunc' signed_take_bit_int_eq_self)

lemma signed_literal_cases:
  assumes "signed_literal s = Some v"
  obtains (pos) "int_literal s = Some v"
  | (neg) r where "s = CHR ''-'' # r" "int_literal r = Some (- v)"
  using assms by (auto simp: signed_literal_def split: list.splits if_splits)

lemma minus_token: "scan_token pos (CHR ''-'' # cs) = Inr (Tok_Op OpSub, 1)"
  by (simp add: scan_token_def scan_operator_def is_decimal_def is_dot_def is_letter_def byte_def)

lemma plus_token: "scan_token pos (CHR ''+'' # cs) = Inr (Tok_Op OpAdd, 1)"
  by (simp add: scan_token_def scan_operator_def is_decimal_def is_dot_def is_letter_def byte_def)

lemma space_is_space: "is_space (CHR '' '')" "\<not> is_space (CHR ''-'')" "\<not> is_space (CHR ''+'')"
  by (simp_all add: is_space_def)

lemma literal_not_negated: "int_literal s = Some v \<Longrightarrow> \<not> negated s"
proof -
  assume "int_literal s = Some v"
  from int_literal_head [OF this] obtain c cs where "s = c # cs" "is_decimal c" by blast
  then show ?thesis by (auto simp: negated_def is_decimal_def byte_def)
qed

lemma tokenize_operand:
  assumes "signed_literal s = Some v" "rest = [] \<or> (\<exists>cs. rest = CHR '' '' # cs)"
  shows "tokenize_from pos (s @ rest) =
       (case tokenize_from (pos + length s) rest of
          Inl e \<Rightarrow> Inl e
        | Inr ts \<Rightarrow> Inr (operand_tokens pos s v @ ts))"
  using assms(1)
proof (cases rule: signed_literal_cases)
  case pos
  then show ?thesis
    using tokenize_literal [OF pos assms(2), of pos] literal_not_negated [OF pos]
    by (simp add: operand_tokens_def split: sum.splits)
next
  case (neg r)
  then show ?thesis
    using tokenize_literal [OF neg(2) assms(2), of "Suc pos"]
    by (simp add: operand_tokens_def negated_def minus_token space_is_space split: sum.splits)
qed

lemma parse_operand:
  "parse_unary eof (operand_tokens pos s v @ toks) = Inr (operand_expr s v, toks)"
  by (simp add: operand_tokens_def operand_expr_def is_unary_def)

lemma length_operand_tokens: "0 < length (operand_tokens pos s v)"
  by (simp add: operand_tokens_def)

lemma evaluate_operand: "evaluate U h pk (operand_expr s v) = Inr (VInt v)"
  by (simp add: operand_expr_def unary_op_def)

lemma tokenize_sum:
  assumes "signed_literal a = Some va" "signed_literal b = Some vb"
  shows "tokenize (a @ '' + '' @ b) =
           Inr (operand_tokens 0 a va @ (Tok_Op OpAdd, Suc (length a)) # operand_tokens (length a + 3) b vb)"
proof -
  have b: "tokenize_from (length a + 3) b = Inr (operand_tokens (length a + 3) b vb)"
    using tokenize_operand [OF assms(2), of "[]" "length a + 3"] by simp
  have m: "tokenize_from (length a) ('' + '' @ b) =
             Inr ((Tok_Op OpAdd, Suc (length a)) # operand_tokens (length a + 3) b vb)"
    using b by (simp add: space_is_space plus_token numeral_3_eq_3)
  show ?thesis
    using tokenize_operand [OF assms(1), of "'' + '' @ b" 0] m
    by (simp add: tokenize_def)
qed

lemma parse_sum:
  assumes "signed_literal a = Some va" "signed_literal b = Some vb"
  shows "parse_text (a @ '' + '' @ b) = Inr (BinaryOp OpAdd (operand_expr a va) (operand_expr b vb))"
proof -
  let ?tb = "operand_tokens (length a + 3) b vb"
  have u: "parse_unary eof ?tb = Inr (operand_expr b vb, [])" for eof
    using parse_operand [of eof "length a + 3" b vb "[]"] by simp
  show ?thesis
    unfolding parse_text_def tokenize_sum [OF assms]
    using length_operand_tokens [of 0 a va] length_operand_tokens [of "length a + 3" b vb]
    by (simp add: parse_def parse_operand u)
qed

lemma sum_value:
  assumes "signed_literal a = Some va" "signed_literal b = Some vb"
  shows "Scope_eval U h s (a @ '' + '' @ b) = Inr (VInt (va + vb))"
  unfolding Scope_eval_def types_Eval_def parse_sum [OF assms]
  by (simp add: evaluate_operand binary_op_def match_kinds_def least_upper_kind_def int_op_def)

lemma shift_example: "calc_Int U h ''1<<100 + 2 - 1<<100'' = (2, None)"
  by code_simp

lemma literal_is_signed:
  assumes "int_literal s = Some v"
  shows "signed_literal s = Some v"
proof -
  from int_literal_head [OF assms] obtain c cs where s: "s = c # cs" "is_decimal c"
    by blast
  then have "c \<noteq> CHR ''-''"
    by (auto simp: is_decimal_def byte_def)
  with s assms show ?thesis
    by (simp add: signed_literal_def)
qed

lemma Int_of_sum:
  assumes "signed_literal a = Some va" "signed_literal b = Some vb"
    "- (2 ^ 63) \<le> va + vb" "va + vb < 2 ^ 63"
  shows "calc_Int U h (a @ '' + '' @ b) = (word_of_int (va + vb), None) \<and>
         sint (word_of_int (va + vb) :: 64 word) = va + vb"
proof
  show "calc_Int U h (a @ '' + '' @ b) = (word_of_int (va + vb), None)"
    unfolding calc_Int_def Scope_Int_def sum_value [OF assms(1,2)]
    using assms(3,4) by simp
  show "sint (word_of_int (va + vb) :: 64 word) = va + vb"
    using assms(3,4) by (rule sint_fits)
qed

text \<open>
  Claim C1. For all integer literals \<open>a\<close> and \<open>b\<close> of the literal grammar (each also
  with a minus sign in front), the text \<^verbatim>\<open>a + b\<close> evaluated without a Scope and
  narrowed by \<^verbatim>\<open>Int\<close> yields the exact sum of their values whenever the sum fits in
  64 bits signed, also when \<open>a\<close> and \<open>b\<close> themselves do not fit; and
  \<^verbatim>\<open>Int("1<<100 + 2 - 1<<100")\<close> returns 2 with a nil error.
\<close>

theorem exact_integer_addition:
  "(int_literal a = Some va \<and> int_literal b = Some vb \<and>
    - (2 ^ 63) \<le> va + vb \<and> va + vb < 2 ^ 63 \<longrightarrow>
      calc_Int U h (a @ '' + '' @ b) = (word_of_int (va + vb), None) \<and>
      sint (word_of_int (va + vb) :: 64 word) = va + vb) \<and>
   (signed_literal a = Some va \<and> signed_literal b = Some vb \<and>
    - (2 ^ 63) \<le> va + vb \<and> va + vb < 2 ^ 63 \<longrightarrow>
      calc_Int U h (a @ '' + '' @ b) = (word_of_int (va + vb), None) \<and>
      sint (word_of_int (va + vb) :: 64 word) = va + vb) \<and>
   calc_Int U h ''1<<100 + 2 - 1<<100'' = (2, None)"
proof (intro conjI)
  show "int_literal a = Some va \<and> int_literal b = Some vb \<and>
    - (2 ^ 63) \<le> va + vb \<and> va + vb < 2 ^ 63 \<longrightarrow>
      calc_Int U h (a @ '' + '' @ b) = (word_of_int (va + vb), None) \<and>
      sint (word_of_int (va + vb) :: 64 word) = va + vb"
    using Int_of_sum [OF literal_is_signed literal_is_signed, of a va b vb U h] by blast
  show "signed_literal a = Some va \<and> signed_literal b = Some vb \<and>
    - (2 ^ 63) \<le> va + vb \<and> va + vb < 2 ^ 63 \<longrightarrow>
      calc_Int U h (a @ '' + '' @ b) = (word_of_int (va + vb), None) \<and>
      sint (word_of_int (va + vb) :: 64 word) = va + vb"
    using Int_of_sum [of a va b vb U h] by blast
  show "calc_Int U h ''1<<100 + 2 - 1<<100'' = (2, None)"
    by (rule shift_example)
qed

theorem exact_integer_addition_witness:
  "int_literal ''0x7FFFFFFFFFFFFFF0'' = Some 9223372036854775792 \<and>
   int_literal ''0b1111'' = Some 15 \<and>
   calc_Int ascii_upper [] ''0x7FFFFFFFFFFFFFF0 + 0b1111'' = (9223372036854775807, None) \<and>
   signed_literal ''-36893488147419103232'' = Some (- 36893488147419103232) \<and>
   signed_literal ''0x20000000000000002'' = Some 36893488147419103234 \<and>
   calc_Int ascii_upper [] ''-36893488147419103232 + 0x20000000000000002'' = (2, None) \<and>
   sint (2 :: 64 word) = 2"
proof -
  have a: "signed_literal ''-36893488147419103232'' = Some (- 36893488147419103232)"
    by code_simp
  have b: "signed_literal ''0x20000000000000002'' = Some 36893488147419103234"
    by code_simp
  have H: "signed_literal ''-36893488147419103232'' = Some (- 36893488147419103232) \<and>
     signed_literal ''0x20000000000000002'' = Some 36893488147419103234 \<and>
     - (2 ^ 63) \<le> - 36893488147419103232 + (36893488147419103234 :: int) \<and>
     - 36893488147419103232 + (36893488147419103234 :: int) < 2 ^ 63"
    using a b by simp
  have s: "calc_Int ascii_upper [] (''-36893488147419103232'' @ '' + '' @ ''0x20000000000000002'') =
          (word_of_int (- 36893488147419103232 + 36893488147419103234), None) \<and>
        sint (word_of_int (- 36893488147419103232 + 36893488147419103234) :: 64 word) =
          - 36893488147419103232 + 36893488147419103234"
    by (rule mp [OF conjunct1 [OF conjunct2 [OF exact_integer_addition]] H])
  have c: "int_literal ''0x7FFFFFFFFFFFFFF0'' = Some 9223372036854775792"
    by code_simp
  have d: "int_literal ''0b1111'' = Some 15"
    by code_simp
  have G: "int_literal ''0x7FFFFFFFFFFFFFF0'' = Some 9223372036854775792 \<and>
     int_literal ''0b1111'' = Some 15 \<and>
     - (2 ^ 63) \<le> 9223372036854775792 + (15 :: int) \<and>
     9223372036854775792 + (15 :: int) < 2 ^ 63"
    using c d by simp
  have u: "calc_Int ascii_upper [] (''0x7FFFFFFFFFFFFFF0'' @ '' + '' @ ''0b1111'') =
          (word_of_int (9223372036854775792 + 15), None) \<and>
        sint (word_of_int (9223372036854775792 + 15) :: 64 word) = 9223372036854775792 + 15"
    by (rule mp [OF conjunct1 [OF exact_integer_addition] G])
  show ?thesis
    using a b c d s u by simp
qed

end
